theory Spec2Isabelle
  imports Complex_Main "HOL-Library.AList" "HOL-Library.Multiset"
begin

section \<open>Errors\<close>

text \<open>
  Python exceptions of the \<open>Exception\<close> hierarchy, as values. A computation that may
  raise has a result of type \<open>error + 'a\<close>, with \<open>Inl\<close> for the raised exception.
\<close>

datatype error =
    Exception string
  | RuntimeError string
  | ValueError string
  | OverflowError string
  | StopIteration

section \<open>EventBus (src/core/events.py)\<close>

text \<open>A payload value: a string or a number.\<close>

datatype pyval = PStr string | PInt nat

record event =
  name :: string
  payload :: "(string \<times> pyval) list"
  timestamp :: nat

text \<open>
  A handler is a callable with a \<open>__name__\<close>. Two different function objects may
  carry the same \<open>__name__\<close>, so the object identity is a field of its own. It is a
  coroutine function (\<open>async def\<close>) or a plain function, as
  \<open>inspect.iscoroutinefunction\<close> tells. Calling the handler on an event either returns
  or raises.
\<close>

record handler =
  hname :: string
  hident :: nat
  is_coroutine :: bool
  hcall :: "event \<Rightarrow> error + unit"

type_synonym subscribers = "string \<rightharpoonup> handler list"

definition empty_bus :: subscribers where
  "empty_bus = Map.empty"

definition handlers_for :: "subscribers \<Rightarrow> string \<Rightarrow> handler list" where
  "handlers_for subs event_name = (case subs event_name of None \<Rightarrow> [] | Some hs \<Rightarrow> hs)"

definition subscribe :: "subscribers \<Rightarrow> string \<Rightarrow> handler \<Rightarrow> subscribers" where
  "subscribe subs event_name h =
     (let subs1 = (if subs event_name = None then subs(event_name \<mapsto> []) else subs);
          existing_handlers = map hname (handlers_for subs1 event_name)
      in if hname h \<in> set existing_handlers then subs1
         else subs1(event_name \<mapsto> handlers_for subs1 event_name @ [h]))"

definition clear_subscribers :: "subscribers \<Rightarrow> subscribers" where
  "clear_subscribers subs = Map.empty"

text \<open>
  \<open>_execute_handler\<close>: the call sits in \<open>try ... except Exception\<close>. The result is the
  outcome of the coroutine, \<open>None\<close> when it never finishes, with the lines written to
  the error log.

  A coroutine function is awaited in place; an exception it raises reaches the
  \<open>except\<close> (a \<open>StopIteration\<close> as the \<open>RuntimeError\<close> that a coroutine turns it into)
  and is logged. A plain function runs through \<open>asyncio.to_thread\<close>, and its exception
  has to be copied into the future that the coroutine awaits. Under Python 3.11
  \<open>Future.set_exception\<close> refuses a \<open>StopIteration\<close>, so for that exception the future
  stays pending: the coroutine is never resumed and nothing is logged.
\<close>

definition execute_handler :: "handler \<Rightarrow> event \<Rightarrow> (error + unit) option \<times> string list" where
  "execute_handler h ev =
     (case hcall h ev of
        Inr u \<Rightarrow> (Some (Inr ()), [])
      | Inl e \<Rightarrow>
          if \<not> is_coroutine h \<and> e = StopIteration then (None, [])
          else (Some (Inr ()), [''Error handling event '' @ name ev @ '' in '' @ hname h]))"

text \<open>
  \<open>await asyncio.gather(*tasks, return_exceptions=True)\<close>: every task is started; an
  exception of a task is an element of the result list, never raised by the gather.
  The gather finishes when every task has finished, so with a task that stays pending
  the \<open>await\<close> never returns.
\<close>

definition gather_return_exceptions ::
  "(error + 'a) option list \<Rightarrow> (error + (error + 'a) list) option" where
  "gather_return_exceptions results =
     (if list_all (\<lambda>r. r \<noteq> None) results
      then Some (Inr (concat (map (\<lambda>r. case r of None \<Rightarrow> [] | Some v \<Rightarrow> [v]) results)))
      else None)"

text \<open>
  The outcome of one \<open>publish\<close>: what the publisher sees (\<open>None\<close> when the call never
  returns, \<open>Some (Inl e)\<close> would be an exception reaching it), the handlers that were
  called, and the error log. The interleaving of the handler coroutines is not
  modelled; each registered handler is one task.
\<close>

record publish_outcome =
  seen_by_publisher :: "(error + unit) option"
  invoked :: "handler list"
  error_log :: "string list"

definition publish :: "subscribers \<Rightarrow> event \<Rightarrow> publish_outcome" where
  "publish subs ev =
     (case subs (name ev) of
        None \<Rightarrow> \<lparr>seen_by_publisher = Some (Inr ()), invoked = [], error_log = []\<rparr>
      | Some handlers \<Rightarrow>
          (let tasks = map (\<lambda>h. (h, execute_handler h ev)) handlers in
           \<lparr>seen_by_publisher =
              (case gather_return_exceptions (map (fst \<circ> snd) tasks) of
                 None \<Rightarrow> None
               | Some (Inl e) \<Rightarrow> Some (Inl e)
               | Some (Inr rs) \<Rightarrow> Some (Inr ())),
            invoked = map fst tasks,
            error_log = concat (map (snd \<circ> snd) tasks)\<rparr>))"

text \<open>The operations a client can apply to the bus, for reachability.\<close>

datatype bus_op = Subscribe string handler | Clear | Publish event

fun bus_step :: "subscribers \<Rightarrow> bus_op \<Rightarrow> subscribers" where
  "bus_step subs (Subscribe event_name h) = subscribe subs event_name h"
| "bus_step subs Clear = clear_subscribers subs"
| "bus_step subs (Publish ev) = subs"

definition bus_after :: "bus_op list \<Rightarrow> subscribers" where
  "bus_after ops = foldl bus_step empty_bus ops"

text \<open>Two different handler functions that carry the same \<open>__name__\<close>.\<close>

definition on_upload_a :: handler where
  "on_upload_a =
     \<lparr>hname = ''on_upload'', hident = 1, is_coroutine = True, hcall = (\<lambda>ev. Inr ())\<rparr>"

definition on_upload_b :: handler where
  "on_upload_b =
     \<lparr>hname = ''on_upload'', hident = 2, is_coroutine = True,
      hcall = (\<lambda>ev. Inl (Exception ''boom''))\<rparr>"

text \<open>
  A plain function that raises \<open>StopIteration\<close>, as \<open>next\<close> does on an iterator that is
  used up, and a coroutine function that returns.
\<close>

definition first_row :: handler where
  "first_row =
     \<lparr>hname = ''first_row'', hident = 3, is_coroutine = False,
      hcall = (\<lambda>ev. Inl StopIteration)\<rparr>"

definition audit :: handler where
  "audit = \<lparr>hname = ''audit'', hident = 4, is_coroutine = True, hcall = (\<lambda>ev. Inr ())\<rparr>"

definition upload_event :: event where
  "upload_event = \<lparr>name = ''FILE_UPLOADED'', payload = [], timestamp = 0\<rparr>"

text \<open>The handlers whose call \<open>_execute_handler\<close> brings to an end.\<close>

definition finishes :: "handler \<Rightarrow> event \<Rightarrow> bool" where
  "finishes h ev = (is_coroutine h \<or> hcall h ev \<noteq> Inl StopIteration)"

section \<open>Strings\<close>

text \<open>
  A Python \<open>str\<close> is a sequence of code points and \<open>len\<close> counts code points. A
  \<open>char\<close> of the model stands for one code point (the code points below 256);
  no function here looks inside a multi-byte encoding.
\<close>

definition isspace :: "char \<Rightarrow> bool" where
  "isspace c = (of_char c \<in> {9, 10, 11, 12, 13, 28, 29, 30, 31, 32, 133, 160 :: nat})"

definition strip :: "string \<Rightarrow> string" where
  "strip s = rev (dropWhile isspace (rev (dropWhile isspace s)))"

text \<open>\<open>s[a:b]\<close> for \<open>0 \<le> a\<close>, \<open>0 \<le> b\<close>; Python clips both bounds to the length.\<close>

definition slice :: "'a list \<Rightarrow> nat \<Rightarrow> nat \<Rightarrow> 'a list" where
  "slice s a b = take (b - a) (drop a s)"

text \<open>\<open>x or d\<close> on an optional string: \<open>None\<close> and the empty string are falsy.\<close>

definition or_str :: "string option \<Rightarrow> string \<Rightarrow> string" where
  "or_str x d = (case x of None \<Rightarrow> d | Some v \<Rightarrow> if v = [] then d else v)"

fun join :: "string \<Rightarrow> string list \<Rightarrow> string" where
  "join sep [] = []"
| "join sep [x] = x"
| "join sep (x # y # ys) = x @ sep @ join sep (y # ys)"

section \<open>Dates\<close>

text \<open>
  A naive \<open>datetime\<close>: the proleptic Gregorian day number (1 is 0001-01-01, as
  \<open>date.toordinal\<close> gives it) and the microsecond of the day. Comparison of naive
  datetimes is the lexicographic order of the two.
\<close>

record datetime =
  ordinal :: int
  day_us :: int

definition dt_le :: "datetime \<Rightarrow> datetime \<Rightarrow> bool" where
  "dt_le a b = (ordinal a < ordinal b \<or> (ordinal a = ordinal b \<and> day_us a \<le> day_us b))"

section \<open>Persisted state\<close>

text \<open>
  The rows of \<open>ArchiveRecord\<close> and \<open>VectorNode\<close> with the columns the indexing and
  retrieval code reads or writes. \<open>meta_data\<close> is a JSON object; its keys \<open>tags\<close>,
  \<open>semantic_date\<close> and \<open>structured.date\<close> are fields of their own. A falsy embedding
  result (\<open>None\<close> or the empty list) is the empty list. A node carries the embedding
  that the indexing pass stored with it.
\<close>

type_synonym vector = "real list"

datatype processing_status = PENDING | PROCESSING | COMPLETED | FAILED

record archive_record =
  rec_id :: nat
  user_id :: nat
  filename :: string
  file_type :: string
  category :: "string option"
  summary :: "string option"
  full_text :: "string option"
  relative_path :: "string option"
  embedding :: "vector option"
  is_vectorized :: nat
  vectorized_at :: "datetime option"
  processed_at :: "datetime option"
  meta_tags :: "string list"
  semantic_date :: "string option"
  structured_date :: "string option"
  processing_status :: processing_status
  processing_error :: "string option"

record vector_node =
  node_id :: nat
  parent_archive_id :: nat
  content :: string
  chunk_index :: nat
  node_embedding :: vector
  source_length :: nat
  is_image_desc :: bool

text \<open>
  The database as the session sees it inside one transaction. \<open>next_node_id\<close> is the
  sequence behind the primary key of \<open>vector_nodes\<close>.
\<close>

record database =
  archives :: "archive_record list"
  vector_nodes :: "vector_node list"
  next_node_id :: nat

type_synonym embedder = "string \<Rightarrow> error + vector"

section \<open>IndexerStage (src/plugins/core_vectorizer.py)\<close>

definition CHUNK_SIZE :: nat where
  "CHUNK_SIZE = 2000"

definition OVERLAP :: nat where
  "OVERLAP = 200"

definition meta_header :: "archive_record \<Rightarrow> string" where
  "meta_header record =
     ''Title: '' @ filename record @ [CHR 0x0A] @
     ''Type: '' @ file_type record @ [CHR 0x0A] @
     ''Category: '' @ or_str (category record) ''Uncategorized'' @ [CHR 0x0A] @
     ''Tags: '' @ join '', '' (meta_tags record) @ [CHR 0x0A] @
     ''Summary: '' @ or_str (summary record) ''N/A'' @ [CHR 0x0A] @
     ''---'' @ [CHR 0x0A]"

definition body_content :: "archive_record \<Rightarrow> string" where
  "body_content record =
     or_str (full_text record) (or_str (summary record) (filename record))"

definition text_to_embed :: "archive_record \<Rightarrow> string" where
  "text_to_embed record = meta_header record @ body_content record"

text \<open>The \<open>while start < len(text_to_embed)\<close> loop of the fine-grained pass.\<close>

function chunk_loop :: "string \<Rightarrow> nat \<Rightarrow> string list \<Rightarrow> string list" where
  "chunk_loop text start chunks =
     (if start < length text
      then chunk_loop text (start + (CHUNK_SIZE - OVERLAP))
             (chunks @ [slice text start (min (start + CHUNK_SIZE) (length text))])
      else chunks)"
  by pat_completeness auto
termination
  by (relation "measure (\<lambda>(text, start, chunks). length text - start)")
     (auto simp: CHUNK_SIZE_def OVERLAP_def)

declare chunk_loop.simps [simp del]

definition make_chunks :: "string \<Rightarrow> string list" where
  "make_chunks text =
     (if length text > CHUNK_SIZE then chunk_loop text 0 [] else [text])"

definition add_node :: "database \<Rightarrow> nat \<Rightarrow> string \<Rightarrow> nat \<Rightarrow> vector \<Rightarrow> nat \<Rightarrow> bool \<Rightarrow> database" where
  "add_node db archive_id chunk i chunk_vector src_len img =
     db\<lparr>vector_nodes := vector_nodes db @
           [\<lparr>node_id = next_node_id db, parent_archive_id = archive_id, content = chunk,
             chunk_index = i, node_embedding = chunk_vector, source_length = src_len,
             is_image_desc = img\<rparr>],
        next_node_id := Suc (next_node_id db)\<rparr>"

text \<open>
  The \<open>for i, chunk in enumerate(chunks)\<close> loop. An exception of the embedding call
  leaves the loop (and the pass); a falsy vector skips the chunk.
\<close>

fun embed_chunks ::
  "embedder \<Rightarrow> nat \<Rightarrow> nat \<Rightarrow> bool \<Rightarrow> (nat \<times> string) list \<Rightarrow> database \<Rightarrow> error + database" where
  "embed_chunks ai archive_id src_len img [] db = Inr db"
| "embed_chunks ai archive_id src_len img ((i, chunk) # rest) db =
     (if length (strip chunk) < 10 then embed_chunks ai archive_id src_len img rest db
      else (case ai chunk of
              Inl e \<Rightarrow> Inl e
            | Inr chunk_vector \<Rightarrow>
                if chunk_vector \<noteq> []
                then embed_chunks ai archive_id src_len img rest
                       (add_node db archive_id chunk i chunk_vector src_len img)
                else embed_chunks ai archive_id src_len img rest db))"

text \<open>Writing the attributes of the row that \<open>.first()\<close> returned.\<close>

fun update_record :: "nat \<Rightarrow> archive_record \<Rightarrow> archive_record list \<Rightarrow> archive_record list" where
  "update_record archive_id record [] = []"
| "update_record archive_id record (r # rs) =
     (if rec_id r = archive_id then record # rs else r # update_record archive_id record rs)"

datatype pass_outcome = NotFound | NoText | Committed | RolledBack error

text \<open>
  \<open>_process_vectorization\<close>. Everything happens in one transaction: the pass either
  reaches \<open>db.commit()\<close> or an exception sends it to \<open>db.rollback()\<close>, which
  restores the database the pass started from. \<open>now\<close> is the clock read for
  \<open>vectorized_at\<close>.
\<close>

definition process_vectorization ::
  "embedder \<Rightarrow> datetime \<Rightarrow> database \<Rightarrow> nat \<Rightarrow> pass_outcome \<times> database" where
  "process_vectorization ai now db archive_id =
     (case find (\<lambda>r. rec_id r = archive_id) (archives db) of
        None \<Rightarrow> (NotFound, db)
      | Some record \<Rightarrow>
          (let text = text_to_embed record in
           if strip text = [] then (NoText, db)
           else (case ai (take 2000 text) of
                   Inl e \<Rightarrow> (RolledBack e, db)
                 | Inr vec \<Rightarrow>
                     (let record1 = (if vec \<noteq> []
                                     then record\<lparr>embedding := Some vec, is_vectorized := 1,
                                                 vectorized_at := Some now\<rparr>
                                     else record);
                          db1 = db\<lparr>archives := update_record archive_id record1 (archives db)\<rparr>;
                          existing_count =
                            length (filter (\<lambda>n. parent_archive_id n = archive_id) (vector_nodes db1));
                          db2 = (if existing_count > 0
                                 then db1\<lparr>vector_nodes :=
                                          filter (\<lambda>n. parent_archive_id n \<noteq> archive_id) (vector_nodes db1)\<rparr>
                                 else db1);
                          chunks = make_chunks text
                      in (case embed_chunks ai archive_id (length text) (file_type record = ''image'')
                                 (enumerate 0 chunks) db2 of
                            Inl e \<Rightarrow> (RolledBack e, db)
                          | Inr db3 \<Rightarrow> (Committed, db3))))))"

definition nodes_of :: "database \<Rightarrow> nat \<Rightarrow> vector_node list" where
  "nodes_of db archive_id = filter (\<lambda>n. parent_archive_id n = archive_id) (vector_nodes db)"



text \<open>
  What the loop over the chunks does, in closed form: a chunk is stored when its
  stripped length is at least 10 and the embedding call returns a vector; the loop
  raises when the embedding call raises on a chunk that is long enough.
\<close>

definition storable :: "embedder \<Rightarrow> string \<Rightarrow> bool" where
  "storable ai chunk =
     (10 \<le> length (strip chunk) \<and> (case ai chunk of Inl e \<Rightarrow> False | Inr v \<Rightarrow> v \<noteq> []))"

definition chunks_raise :: "embedder \<Rightarrow> (nat \<times> string) list \<Rightarrow> bool" where
  "chunks_raise ai ics = list_ex (\<lambda>(i, c). 10 \<le> length (strip c) \<and> isl (ai c)) ics"

fun new_nodes ::
  "embedder \<Rightarrow> nat \<Rightarrow> nat \<Rightarrow> bool \<Rightarrow> (nat \<times> string) list \<Rightarrow> nat \<Rightarrow> vector_node list" where
  "new_nodes ai archive_id src_len img [] k = []"
| "new_nodes ai archive_id src_len img ((i, chunk) # rest) k =
     (if storable ai chunk
      then \<lparr>node_id = k, parent_archive_id = archive_id, content = chunk, chunk_index = i,
            node_embedding = (case ai chunk of Inl e \<Rightarrow> [] | Inr v \<Rightarrow> v),
            source_length = src_len, is_image_desc = img\<rparr>
           # new_nodes ai archive_id src_len img rest (Suc k)
      else new_nodes ai archive_id src_len img rest k)"

section \<open>Time filter (src/services/agents/retrieval_agent.py)\<close>

definition is_digit :: "char \<Rightarrow> bool" where
  "is_digit c = (48 \<le> (of_char c :: nat) \<and> (of_char c :: nat) \<le> 57)"

definition int_of_digits :: "string \<Rightarrow> int" where
  "int_of_digits ds = foldl (\<lambda>n c. 10 * n + (int (of_char c) - 48)) 0 ds"

definition is_leap :: "int \<Rightarrow> bool" where
  "is_leap y = (y mod 4 = 0 \<and> (y mod 100 \<noteq> 0 \<or> y mod 400 = 0))"

definition days_in_month :: "int \<Rightarrow> int \<Rightarrow> int" where
  "days_in_month y m =
     (if m = 2 then (if is_leap y then 29 else 28)
      else if m = 4 \<or> m = 6 \<or> m = 9 \<or> m = 11 then 30 else 31)"

definition days_before_year :: "int \<Rightarrow> int" where
  "days_before_year year =
     (let y = year - 1 in y * 365 + y div 4 - y div 100 + y div 400)"

definition days_before_month :: "int \<Rightarrow> int \<Rightarrow> int" where
  "days_before_month year month =
     [0, 0, 31, 59, 90, 120, 151, 181, 212, 243, 273, 304, 334] ! nat month
       + (if month > 2 \<and> is_leap year then 1 else 0)"

definition ymd2ord :: "int \<Rightarrow> int \<Rightarrow> int \<Rightarrow> int" where
  "ymd2ord year month day = days_before_year year + days_before_month year month + day"

text \<open>
  \<open>datetime.fromisoformat\<close> of the Python library, as its documentation has it: the
  date-only form \<open>YYYY-MM-DD\<close> with a year from 1 to 9999 gives midnight of that day,
  and a string shorter than seven characters or of the reduced form \<open>YYYY-MM\<close> is
  rejected (\<open>ValueError\<close>, here \<open>None\<close>) by every Python version. The other shapes
  that some versions accept (a time part, the basic format, week dates) are outside
  this model; no statement below evaluates it on such a string.
\<close>

definition fromisoformat :: "string \<Rightarrow> datetime option" where
  "fromisoformat s =
     (if length s = 10 \<and> s ! 4 = CHR ''-'' \<and> s ! 7 = CHR ''-''
         \<and> list_all is_digit (take 4 s) \<and> list_all is_digit (take 2 (drop 5 s))
         \<and> list_all is_digit (drop 8 s)
      then (let y = int_of_digits (take 4 s); m = int_of_digits (take 2 (drop 5 s));
                d = int_of_digits (drop 8 s)
            in if 1 \<le> y \<and> 1 \<le> m \<and> m \<le> 12 \<and> 1 \<le> d \<and> d \<le> days_in_month y m
               then Some \<lparr>ordinal = ymd2ord y m d, day_us = 0\<rparr>
               else None)
      else None)"

text \<open>\<open>_parse_date\<close>: the value as it is, then the value with \<open>-01\<close> appended.\<close>

definition parse_date :: "string \<Rightarrow> datetime option" where
  "parse_date v =
     (if v = [] then None
      else (case fromisoformat v of
              Some dt \<Rightarrow> Some dt
            | None \<Rightarrow> fromisoformat (v @ ''-01'')))"

text \<open>
  \<open>re.match(r"^last(\d+)([dh])$", tr)\<close> on the stripped expression: the number and
  the unit when it matches.
\<close>

definition match_last :: "string \<Rightarrow> (int \<times> char) option" where
  "match_last tr =
     (if 6 \<le> length tr \<and> take 4 tr = ''last''
         \<and> list_all is_digit (butlast (drop 4 tr))
         \<and> (last tr = CHR ''d'' \<or> last tr = CHR ''h'')
      then Some (int_of_digits (butlast (drop 4 tr)), last tr)
      else None)"

definition US_PER_DAY :: int where
  "US_PER_DAY = 86400000000"

definition MAXORDINAL :: int where
  "MAXORDINAL = 3652059"

text \<open>
  \<open>now - timedelta(days=n)\<close> and \<open>now - timedelta(hours=n)\<close>. A \<open>timedelta\<close> of more
  than 999999999 days and a result outside the years 1 to 9999 raise
  \<open>OverflowError\<close>.
\<close>

definition minus_days :: "datetime \<Rightarrow> int \<Rightarrow> error + datetime" where
  "minus_days now n =
     (if n > 999999999 then Inl (OverflowError ''days'')
      else if ordinal now - n < 1 \<or> ordinal now - n > MAXORDINAL
      then Inl (OverflowError ''date value out of range'')
      else Inr (now\<lparr>ordinal := ordinal now - n\<rparr>))"

definition minus_hours :: "datetime \<Rightarrow> int \<Rightarrow> error + datetime" where
  "minus_hours now n =
     (if n div 24 > 999999999 then Inl (OverflowError ''days'')
      else (let total = ordinal now * US_PER_DAY + day_us now - n * 3600000000;
                ord = total div US_PER_DAY
            in if ord < 1 \<or> ord > MAXORDINAL
               then Inl (OverflowError ''date value out of range'')
               else Inr \<lparr>ordinal = ord, day_us = total mod US_PER_DAY\<rparr>))"

definition in_range :: "datetime option \<Rightarrow> datetime option \<Rightarrow> datetime \<Rightarrow> bool" where
  "in_range start end dt =
     (case (start, end) of
        (Some s, Some e) \<Rightarrow> dt_le s dt \<and> dt_le dt e
      | (Some s, None) \<Rightarrow> dt_le s dt
      | (None, _) \<Rightarrow> True)"

text \<open>The bounds \<open>(start, end)\<close> that \<open>_match_time_range\<close> computes from the expression.\<close>

definition range_bounds :: "datetime \<Rightarrow> string \<Rightarrow> error + (datetime option \<times> datetime option)" where
  "range_bounds now tr =
     (case match_last tr of
        Some (num, unit) \<Rightarrow>
          (if unit = CHR ''d''
           then (case minus_days now num of
                   Inl e \<Rightarrow> Inl e
                 | Inr dt \<Rightarrow> Inr (Some (dt\<lparr>day_us := 0\<rparr>), Some now))
           else (case minus_hours now num of
                   Inl e \<Rightarrow> Inl e
                 | Inr dt \<Rightarrow> Inr (Some dt, Some now)))
      | None \<Rightarrow>
          (if CHR ''~'' \<in> set tr
           then Inr (parse_date (takeWhile (\<lambda>c. c \<noteq> CHR ''~'') tr),
                     parse_date (tl (dropWhile (\<lambda>c. c \<noteq> CHR ''~'') tr)))
           else Inr (parse_date tr, None)))"

text \<open>
  \<open>_match_time_range(candidate, time_range, fallback_dt)\<close>; \<open>now\<close> is the clock. The
  semantic date decides when it parses, then the fallback timestamp, and a candidate
  with neither passes.
\<close>

definition match_time_range ::
  "datetime \<Rightarrow> string option \<Rightarrow> string option \<Rightarrow> datetime option \<Rightarrow> error + bool" where
  "match_time_range now candidate time_range fallback_dt =
     (case time_range of
        None \<Rightarrow> Inr True
      | Some raw \<Rightarrow>
          if raw = [] then Inr True
          else (case range_bounds now (strip raw) of
                  Inl e \<Rightarrow> Inl e
                | Inr (start, end) \<Rightarrow>
                    (let semantic_dt = (case candidate of None \<Rightarrow> None | Some c \<Rightarrow> parse_date c)
                     in case semantic_dt of
                          Some dt \<Rightarrow> Inr (in_range start end dt)
                        | None \<Rightarrow>
                            (case fallback_dt of
                               Some dt \<Rightarrow> Inr (in_range start end dt)
                             | None \<Rightarrow> Inr True))))"

section \<open>ArchiverStage (src/plugins/core_archiver.py)\<close>

text \<open>\<open>str(e)\<close>.\<close>

fun message :: "error \<Rightarrow> string" where
  "message (Exception m) = m"
| "message (RuntimeError m) = m"
| "message (ValueError m) = m"
| "message (OverflowError m) = m"
| "message StopIteration = []"

text \<open>
  What the outside does during one run of \<open>_process_and_persist\<close>: for each call
  that can raise, its result, in the order of the source. A path is the list of its
  components.

  \<^item> \<open>resolve_storage\<close>: the query for the user and \<open>_get_default_storage_root\<close>, which
    give the mount path and the sanitised username, or raise. After a raise here
    \<open>storage_root\<close> is still \<open>None\<close>.
  \<^item> \<open>naming\<close>: the statements that read the analysis result up to the call of
    \<open>_pick_year_month\<close>. Text extraction and the analysis call catch their own
    exceptions, but what the analysis returned is read unchecked: a \<open>structured\<close>
    entry that is null makes \<open>structured.get("date")\<close> raise. After a raise here
    \<open>year_month\<close> is still \<open>None\<close>.
  \<^item> \<open>year_month\<close>: the value assigned to \<open>year_month\<close>.
  \<^item> \<open>pick_category\<close>: \<open>semantic.get("category")\<close>, which raises for a \<open>semantic\<close>
    entry that is null.
  \<^item> \<open>generate_target_path\<close>, \<open>move_to_target\<close>, \<open>stat_target\<close>, \<open>commit_completed\<close>:
    creating the target directory and choosing the name, \<open>shutil.move\<close>,
    \<open>final_path.stat()\<close>, and \<open>db.commit()\<close> with the refresh that follows.
  \<^item> \<open>year_month_now\<close>, \<open>file_type_dir\<close>, \<open>move_to_failed\<close>, \<open>commit_failed\<close>: what the
    failure handler reads and calls. \<open>db.rollback()\<close> is taken to work.
  \<^item> \<open>analysed\<close>: the attribute updates of the successful path.
\<close>

record archive_env =
  resolve_storage :: "error + (string list \<times> string)"
  naming :: "error option"
  year_month :: string
  pick_category :: "error option"
  generate_target_path :: "error + string list"
  move_to_target :: "error option"
  stat_target :: "error option"
  commit_completed :: "error option"
  year_month_now :: string
  file_type_dir :: string
  move_to_failed :: "error option"
  commit_failed :: "error option"
  analysed :: "archive_record \<Rightarrow> archive_record"

record archive_outcome =
  raised :: "error option"
  file_at :: "string list"
  stored :: archive_record
  published :: "event list"

text \<open>\<open>path.name\<close>: the last component, the empty string for a path without one.\<close>

definition path_name :: "string list \<Rightarrow> string" where
  "path_name p = (case rev p of [] \<Rightarrow> [] | n # ns \<Rightarrow> n)"

text \<open>
  \<open>_handle_failed_file\<close>: the target inside the \<open>_FAILED\<close> directory of the folder of
  the file's type.
\<close>

definition failed_path :: "string list \<Rightarrow> string \<Rightarrow> string \<Rightarrow> string \<Rightarrow> string list \<Rightarrow> string list" where
  "failed_path mount username ym type_dir file_path =
     mount @ [username, ym, type_dir, ''_FAILED'', path_name file_path]"

text \<open>
  The \<open>except Exception as e\<close> block. \<open>record\<close> is the row after \<open>db.rollback()\<close>,
  \<open>place\<close> is where the file is now, \<open>storage\<close> and \<open>ym\<close> are \<open>None\<close> while the
  variables \<open>storage_root\<close>, \<open>username\<close> and \<open>year_month\<close> have not been assigned. The
  file is moved only if it still exists at \<open>file_path\<close>, and an exception of that
  move is swallowed.
\<close>

definition handle_failure ::
  "archive_env \<Rightarrow> string list \<Rightarrow> string list \<Rightarrow> (string list \<times> string) option \<Rightarrow> string option
     \<Rightarrow> archive_record \<Rightarrow> error \<Rightarrow> archive_outcome" where
  "handle_failure env file_path place storage ym record e =
     (let fallback_year_month = (case ym of None \<Rightarrow> year_month_now env
                                 | Some v \<Rightarrow> if v = [] then year_month_now env else v);
          place' =
            (if place = file_path
             then (case storage of
                     None \<Rightarrow> place
                   | Some (mount, username) \<Rightarrow>
                       if username \<noteq> []
                       then (case move_to_failed env of
                               None \<Rightarrow> failed_path mount username fallback_year_month
                                         (file_type_dir env) file_path
                             | Some e' \<Rightarrow> place)
                       else place)
             else place)
      in case commit_failed env of
           None \<Rightarrow>
             \<lparr>raised = Some e, file_at = place',
              stored = record\<lparr>processing_status := FAILED, processing_error := Some (message e)\<rparr>,
              published = []\<rparr>
         | Some e2 \<Rightarrow>
             \<lparr>raised = Some e2, file_at = place', stored = record, published = []\<rparr>)"

definition archive_completed_event :: "archive_record \<Rightarrow> string list \<Rightarrow> event" where
  "archive_completed_event record file_path =
     \<lparr>name = ''ARCHIVE_COMPLETED'',
      payload = [(''archive_id'', PInt (rec_id record)),
                 (''file_path'', PStr (join ''/'' file_path)),
                 (''status'', PStr ''COMPLETED'')],
      timestamp = 0\<rparr>"

text \<open>
  \<open>_process_and_persist\<close> with the record that the caller passes and the file present
  at \<open>file_path\<close>. Each step that raises leads to the \<open>except\<close> block with the variables
  assigned so far. The event is published after the commit; \<open>publish\<close> raises nothing,
  and what comes after it catches its own exceptions.
\<close>

definition process_and_persist :: "archive_env \<Rightarrow> string list \<Rightarrow> archive_record \<Rightarrow> archive_outcome" where
  "process_and_persist env file_path record =
     (case resolve_storage env of
        Inl e \<Rightarrow> handle_failure env file_path file_path None None record e
      | Inr (mount, username) \<Rightarrow>
          (case naming env of
             Some e \<Rightarrow>
               handle_failure env file_path file_path (Some (mount, username)) None record e
           | None \<Rightarrow>
          (case pick_category env of
             Some e \<Rightarrow>
               handle_failure env file_path file_path (Some (mount, username))
                 (Some (year_month env)) record e
           | None \<Rightarrow>
          (case generate_target_path env of
             Inl e \<Rightarrow>
               handle_failure env file_path file_path (Some (mount, username))
                 (Some (year_month env)) record e
           | Inr final_path \<Rightarrow>
               (case move_to_target env of
                  Some e \<Rightarrow>
                    handle_failure env file_path file_path (Some (mount, username))
                      (Some (year_month env)) record e
                | None \<Rightarrow>
                    (case stat_target env of
                       Some e \<Rightarrow>
                         handle_failure env file_path final_path (Some (mount, username))
                           (Some (year_month env)) record e
                     | None \<Rightarrow>
                         (case commit_completed env of
                            Some e \<Rightarrow>
                              handle_failure env file_path final_path (Some (mount, username))
                                (Some (year_month env)) record e
                          | None \<Rightarrow>
                              (let record' = (analysed env record)
                                     \<lparr>processing_status := COMPLETED, processing_error := None\<rparr>
                               in \<lparr>raised = None, file_at = final_path, stored = record',
                                   published = [archive_completed_event record' file_path]\<rparr>))))))))"

text \<open>A run in which everything works until the commit, which raises.\<close>

definition commit_fails :: archive_env where
  "commit_fails =
     \<lparr>resolve_storage = Inr ([''data'', ''archives''], ''alice''),
      naming = None, year_month = ''2023.11'', pick_category = None,
      generate_target_path =
        Inr [''data'', ''archives'', ''alice'', ''2023.11'', ''Documents'', ''2023-11-15-invoice.txt''],
      move_to_target = None, stat_target = None,
      commit_completed = Some (Exception ''database is locked''),
      year_month_now = ''2026.11'', file_type_dir = ''Documents'',
      move_to_failed = None, commit_failed = None,
      analysed = (\<lambda>r. r)\<rparr>"

text \<open>A run in which the move to the target raises.\<close>

definition move_fails :: archive_env where
  "move_fails = commit_fails\<lparr>move_to_target := Some (Exception ''disk full''),
                             commit_completed := None\<rparr>"

definition all_works :: archive_env where
  "all_works = commit_fails\<lparr>commit_completed := None\<rparr>"

text \<open>A run in which the storage root cannot be read.\<close>

definition storage_fails :: archive_env where
  "storage_fails = all_works\<lparr>resolve_storage := Inl (Exception ''no such table: storage_roots'')\<rparr>"

text \<open>A run whose analysis came back with a null \<open>structured\<close> entry.\<close>

definition naming_fails :: archive_env where
  "naming_fails = all_works\<lparr>naming := Some (Exception ''NoneType object has no attribute get'')\<rparr>"

text \<open>A run whose analysis came back with a null \<open>semantic\<close> entry.\<close>

definition category_fails :: archive_env where
  "category_fails =
     all_works\<lparr>pick_category := Some (Exception ''NoneType object has no attribute get'')\<rparr>"

text \<open>A run in which the size of the moved file cannot be read.\<close>

definition stat_fails :: archive_env where
  "stat_fails = all_works\<lparr>stat_target := Some (Exception ''permission denied'')\<rparr>"

definition upload_path :: "string list" where
  "upload_path = [''data'', ''temp'', ''invoice.txt'']"

section \<open>More string functions\<close>

definition lower_char :: "char \<Rightarrow> char" where
  "lower_char c =
     (let n = (of_char c :: nat)
      in if (65 \<le> n \<and> n \<le> 90) \<or> (192 \<le> n \<and> n \<le> 222 \<and> n \<noteq> 215)
         then char_of (n + 32) else c)"

definition lower :: "string \<Rightarrow> string" where
  "lower s = map lower_char s"

text \<open>\<open>s.find(sub)\<close>: the index of the first occurrence, \<open>None\<close> for \<open>-1\<close>.\<close>

fun find_from :: "string \<Rightarrow> string \<Rightarrow> nat \<Rightarrow> nat option" where
  "find_from sub [] k = (if sub = [] then Some k else None)"
| "find_from sub (c # cs) k =
     (if take (length sub) (c # cs) = sub then Some k else find_from sub cs (Suc k))"

definition str_find :: "string \<Rightarrow> string \<Rightarrow> nat option" where
  "str_find s sub = find_from sub s 0"

text \<open>\<open>sub in s\<close>.\<close>

definition contains :: "string \<Rightarrow> string \<Rightarrow> bool" where
  "contains s sub = (str_find s sub \<noteq> None)"

text \<open>The maximal non-empty runs of characters that satisfy \<open>P\<close>, from left to right.\<close>

fun runs_acc :: "(char \<Rightarrow> bool) \<Rightarrow> string \<Rightarrow> string \<Rightarrow> string list" where
  "runs_acc P cur [] = (if cur = [] then [] else [cur])"
| "runs_acc P cur (c # cs) =
     (if P c then runs_acc P (cur @ [c]) cs
      else (if cur = [] then [] else [cur]) @ runs_acc P [] cs)"

definition runs :: "(char \<Rightarrow> bool) \<Rightarrow> string \<Rightarrow> string list" where
  "runs P s = runs_acc P [] s"

text \<open>\<open>s.split()\<close>: the runs of characters that are not whitespace.\<close>

definition split_ws :: "string \<Rightarrow> string list" where
  "split_ws s = runs (\<lambda>c. \<not> isspace c) s"

text \<open>The characters that the regular expression class \<open>\w\<close> matches.\<close>

definition is_word_char :: "char \<Rightarrow> bool" where
  "is_word_char c =
     (let n = (of_char c :: nat)
      in (48 \<le> n \<and> n \<le> 57) \<or> (65 \<le> n \<and> n \<le> 90) \<or> n = 95 \<or> (97 \<le> n \<and> n \<le> 122)
         \<or> n = 170 \<or> n = 178 \<or> n = 179 \<or> n = 181 \<or> n = 185 \<or> n = 186
         \<or> (188 \<le> n \<and> n \<le> 190) \<or> (192 \<le> n \<and> n \<le> 214) \<or> (216 \<le> n \<and> n \<le> 246)
         \<or> 248 \<le> n)"

definition is_ascii_letter :: "char \<Rightarrow> bool" where
  "is_ascii_letter c =
     (let n = (of_char c :: nat) in (65 \<le> n \<and> n \<le> 90) \<or> (97 \<le> n \<and> n \<le> 122))"

text \<open>
  \<open>re.findall(r'\b[a-zA-Z]{3,}\b', s)\<close>: a match starts and ends at a word boundary,
  so it is a whole maximal run of word characters, made of ASCII letters only.
\<close>

definition english_words :: "string \<Rightarrow> string list" where
  "english_words s =
     filter (\<lambda>w. 3 \<le> length w \<and> list_all is_ascii_letter w) (runs is_word_char s)"

section \<open>Retrieval (src/services/agents/retrieval_agent.py, src/services/ai/rerank_provider.py)\<close>

text \<open>
  Vector search results carry the document id as the string \<open>str(record.id)\<close>,
  keyword results carry the integer \<open>record.id\<close>. A Python \<open>str\<close> and an \<open>int\<close> are never
  equal and are different dictionary keys. \<open>StrKey n\<close> stands for the string
  \<open>str(n)\<close>, \<open>IntKey n\<close> for the integer \<open>n\<close>; \<open>int(doc_id)\<close> reads the number back.
\<close>

datatype doc_key = StrKey nat | IntKey nat

fun int_of_key :: "doc_key \<Rightarrow> nat" where
  "int_of_key (StrKey n) = n"
| "int_of_key (IntKey n) = n"

text \<open>
  The \<open>metadata\<close> dictionary of a hit, with the keys that the later stages read; a key
  that a producer does not set reads as \<open>None\<close>.
\<close>

record hit_meta =
  m_filename :: string
  m_category :: "string option"
  m_summary :: "string option"
  matched_content :: string
  match_source :: string
  rerank_score :: "real option"

record vector_result =
  vr_id :: nat
  vr_score :: real
  vr_metadata :: hit_meta

record hit =
  hit_id :: doc_key
  score :: real
  source :: string
  metadata :: hit_meta
  original_score :: "real option"

record agg_info =
  a_score :: real
  a_snippet :: string
  a_source :: string
  a_child_id :: "nat option"

text \<open>
  The rerank model behind \<open>RerankService\<close>: missing, or a \<open>predict\<close> from the query and
  the candidate texts to one logit per pair, which may raise.
\<close>

datatype reranker = Unavailable | Model "string \<Rightarrow> string list \<Rightarrow> error + real list"

record world =
  embed_text :: embedder
  rerank_model :: reranker
  clock :: datetime

definition l2 :: "vector \<Rightarrow> vector \<Rightarrow> real" where
  "l2 a b = sqrt (sum_list (map (\<lambda>(x, y). (x - y)\<^sup>2) (zip a b)))"

text \<open>
  \<open>query.order_by(col.l2_distance(q)).limit(k).all()\<close>. The database refuses vectors of
  different dimensions. Rows at the same distance come in table order.
\<close>

definition nearest :: "('a \<Rightarrow> vector) \<Rightarrow> vector \<Rightarrow> nat \<Rightarrow> 'a list \<Rightarrow> error + 'a list" where
  "nearest emb q k rows =
     (if list_all (\<lambda>r. length (emb r) = length q) rows
      then Inr (take k (sort_key (\<lambda>r. l2 (emb r) q) rows))
      else Inl (Exception ''different vector dimensions''))"

definition calc_score :: "vector \<Rightarrow> vector option \<Rightarrow> real" where
  "calc_score q emb = (case emb of None \<Rightarrow> 0 | Some e \<Rightarrow> 1 / (1 + l2 e q))"

definition add_child :: "vector \<Rightarrow> (nat \<times> agg_info) list \<Rightarrow> vector_node \<Rightarrow> (nat \<times> agg_info) list" where
  "add_child q aggregated_scores child =
     (let pid = parent_archive_id child;
          sc = calc_score q (Some (node_embedding child));
          info = \<lparr>a_score = sc, a_snippet = content child, a_source = ''child_node'',
                  a_child_id = Some (node_id child)\<rparr>
      in case map_of aggregated_scores pid of
           None \<Rightarrow> AList.update pid info aggregated_scores
         | Some old \<Rightarrow>
             if sc > a_score old then AList.update pid info aggregated_scores
             else aggregated_scores)"

text \<open>\<open>parent.summary or parent.full_text[:200] if parent.full_text else ""\<close>.\<close>

definition parent_snippet :: "archive_record \<Rightarrow> string" where
  "parent_snippet parent =
     (if or_str (full_text parent) [] \<noteq> []
      then or_str (summary parent) (take 200 (or_str (full_text parent) []))
      else [])"

definition add_parent :: "vector \<Rightarrow> (nat \<times> agg_info) list \<Rightarrow> archive_record \<Rightarrow> (nat \<times> agg_info) list" where
  "add_parent q aggregated_scores parent =
     (let pid = rec_id parent;
          sc = calc_score q (embedding parent)
      in case map_of aggregated_scores pid of
           None \<Rightarrow>
             AList.update pid
               \<lparr>a_score = sc, a_snippet = parent_snippet parent, a_source = ''parent_vector'',
                a_child_id = None\<rparr> aggregated_scores
         | Some old \<Rightarrow>
             if sc > a_score old
             then AList.update pid (old\<lparr>a_score := sc, a_source := ''parent_vector_boost''\<rparr>)
                    aggregated_scores
             else aggregated_scores)"

text \<open>The \<open>filters\<close> dictionary, \<open>None\<close> when the caller passes none.\<close>

type_synonym filters = "(string \<times> string) list option"

definition filter_has :: "filters \<Rightarrow> string \<Rightarrow> bool" where
  "filter_has fs k = (case fs of None \<Rightarrow> False | Some d \<Rightarrow> map_of d k \<noteq> None)"

definition filter_get :: "filters \<Rightarrow> string \<Rightarrow> string option" where
  "filter_get fs k = (case fs of None \<Rightarrow> None | Some d \<Rightarrow> map_of d k)"

definition parent_rows :: "database \<Rightarrow> nat \<Rightarrow> filters \<Rightarrow> archive_record list" where
  "parent_rows db uid fs =
     filter (\<lambda>r. user_id r = uid \<and> embedding r \<noteq> None \<and> is_vectorized r = 1
              \<and> (if filter_has fs ''category'' then category r = filter_get fs ''category''
                   else True)
              \<and> (if filter_has fs ''file_type''
                   then Some (file_type r) = filter_get fs ''file_type'' else True))
       (archives db)"

text \<open>\<open>record_map.get(pid)\<close> for \<open>record_map = {r.id: r for r in records}\<close>.\<close>

definition record_map_get :: "archive_record list \<Rightarrow> nat \<Rightarrow> archive_record option" where
  "record_map_get records pid = find (\<lambda>r. rec_id r = pid) (rev records)"

definition final_result :: "archive_record list \<Rightarrow> filters \<Rightarrow> real \<Rightarrow> nat \<times> agg_info \<Rightarrow> vector_result list" where
  "final_result records fs min_score entry =
     (case record_map_get records (fst entry) of
        None \<Rightarrow> []
      | Some record \<Rightarrow>
          if a_score (snd entry) < min_score then []
          else if fs \<noteq> None \<and> fs \<noteq> Some []
                  \<and> ((filter_has fs ''category'' \<and> category record \<noteq> filter_get fs ''category'')
                     \<or> (filter_has fs ''file_type''
                         \<and> Some (file_type record) \<noteq> filter_get fs ''file_type''))
          then []
          else [\<lparr>vr_id = rec_id record, vr_score = a_score (snd entry),
                 vr_metadata = \<lparr>m_filename = filename record, m_category = category record,
                                 m_summary = None, matched_content = a_snippet (snd entry),
                                 match_source = a_source (snd entry), rerank_score = None\<rparr>\<rparr>])"

text \<open>
  \<open>search_by_vector\<close>. The body is one \<open>try\<close> whose \<open>except Exception\<close> returns the
  empty list, as does a falsy query vector.
\<close>

definition search_by_vector ::
  "world \<Rightarrow> database \<Rightarrow> string \<Rightarrow> nat \<Rightarrow> filters \<Rightarrow> nat \<Rightarrow> real \<Rightarrow> vector_result list" where
  "search_by_vector w db query_text top_k fs uid min_score =
     (case embed_text w query_text of
        Inl e \<Rightarrow> []
      | Inr query_vector \<Rightarrow>
          if query_vector = [] then []
          else (case nearest node_embedding query_vector (top_k * 3) (vector_nodes db) of
                  Inl e \<Rightarrow> []
                | Inr child_results \<Rightarrow>
                    (case nearest (\<lambda>r. case embedding r of None \<Rightarrow> [] | Some v \<Rightarrow> v) query_vector top_k
                            (parent_rows db uid fs) of
                       Inl e \<Rightarrow> []
                     | Inr parent_results \<Rightarrow>
                         (let aggregated_scores =
                                foldl (add_parent query_vector)
                                  (foldl (add_child query_vector) [] child_results) parent_results;
                              all_ids = map fst aggregated_scores
                          in if all_ids = [] then []
                             else (let records = filter (\<lambda>r. rec_id r \<in> set all_ids) (archives db);
                                       final_results =
                                         concat (map (final_result records fs min_score) aggregated_scores)
                                   in take top_k (sort_key (\<lambda>x. - vr_score x) final_results))))))"

text \<open>
  \<open>search_by_keywords\<close>: \<open>LIKE '%keyword%'\<close> on four columns, any keyword, newest id
  first. The match is case-sensitive, as in PostgreSQL, and a \<open>NULL\<close> column matches
  nothing. The pattern characters \<open>%\<close> and \<open>_\<close> inside a keyword are read literally
  here.
\<close>

definition like_any :: "string list \<Rightarrow> archive_record \<Rightarrow> bool" where
  "like_any keywords r =
     list_ex (\<lambda>keyword.
        contains (filename r) keyword
        \<or> (case summary r of None \<Rightarrow> False | Some t \<Rightarrow> contains t keyword)
        \<or> (case category r of None \<Rightarrow> False | Some t \<Rightarrow> contains t keyword)
        \<or> (case full_text r of None \<Rightarrow> False | Some t \<Rightarrow> contains t keyword)) keywords"

definition search_by_keywords ::
  "database \<Rightarrow> string list \<Rightarrow> nat \<Rightarrow> nat \<Rightarrow> string option \<Rightarrow> archive_record list" where
  "search_by_keywords db keywords limit uid ftype =
     (let q1 = filter (\<lambda>r. user_id r = uid) (archives db);
          q2 = (if or_str ftype [] \<noteq> [] then filter (\<lambda>r. Some (file_type r) = ftype) q1 else q1);
          q3 = (if keywords \<noteq> [] then filter (like_any keywords) q2 else q2)
      in take limit (sort_key (\<lambda>r. - int (rec_id r)) q3))"

text \<open>
  The keywords taken from the query when the caller gives none. The code points of
  the Chinese pattern lie outside the alphabet of the model, so that list is empty.
\<close>

definition extract_keywords :: "string \<Rightarrow> string list" where
  "extract_keywords query_text =
     (let chinese_words = [];
          kws = take 3 chinese_words @ take 2 (english_words query_text)
      in if kws \<noteq> [] then kws
         else if CHR '' '' \<in> set query_text then take 5 (split_ws query_text)
         else [take 10 query_text])"

definition or_opt :: "string option \<Rightarrow> string option \<Rightarrow> string option" where
  "or_opt a b = (case a of None \<Rightarrow> b | Some v \<Rightarrow> if v = [] then b else Some v)"

definition pass_time :: "world \<Rightarrow> archive_record list \<Rightarrow> string option \<Rightarrow> nat \<Rightarrow> error + bool" where
  "pass_time w records time_range doc_id =
     (case record_map_get records doc_id of
        None \<Rightarrow> Inr True
      | Some rec \<Rightarrow>
          match_time_range (clock w) (or_opt (semantic_date rec) (structured_date rec)) time_range
            (processed_at rec))"

text \<open>A list comprehension \<open>[r for r in rs if p(r)]\<close> whose test may raise.\<close>

fun filter_raising :: "('a \<Rightarrow> error + bool) \<Rightarrow> 'a list \<Rightarrow> error + 'a list" where
  "filter_raising p [] = Inr []"
| "filter_raising p (x # xs) =
     (case p x of
        Inl e \<Rightarrow> Inl e
      | Inr b \<Rightarrow>
          (case filter_raising p xs of
             Inl e \<Rightarrow> Inl e
           | Inr ys \<Rightarrow> Inr (if b then x # ys else ys)))"

definition max_list :: "nat list \<Rightarrow> nat" where
  "max_list xs = foldl max 0 xs"

definition add_vector_hit :: "(doc_key \<times> hit) list \<Rightarrow> vector_result \<Rightarrow> (doc_key \<times> hit) list" where
  "add_vector_hit combined result =
     AList.update (StrKey (vr_id result))
       \<lparr>hit_id = StrKey (vr_id result), score = vr_score result, source = ''vector'',
        metadata = vr_metadata result, original_score = None\<rparr> combined"

text \<open>The first keyword found in the lowered full text, with the place of the hit.\<close>

fun first_found :: "string \<Rightarrow> string list \<Rightarrow> nat option" where
  "first_found text_lower [] = None"
| "first_found text_lower (kw # kws) =
     (case str_find text_lower (lower kw) of
        Some idx \<Rightarrow> Some idx
      | None \<Rightarrow> first_found text_lower kws)"

definition keyword_snippet :: "archive_record \<Rightarrow> string list \<Rightarrow> string \<times> string" where
  "keyword_snippet record keywords =
     (let ft = or_str (full_text record) []
      in if ft \<noteq> [] \<and> keywords \<noteq> []
         then (case first_found (lower ft) keywords of
                 Some idx \<Rightarrow>
                   (strip (map (\<lambda>c. if c = CHR 0x0A then CHR '' '' else c)
                             (slice ft (idx - 50) (min (length ft) (idx + 150)))),
                    ''keyword_fulltext_snippet'')
               | None \<Rightarrow> (or_str (summary record) [], ''keyword_summary''))
         else (or_str (summary record) [], ''keyword_summary''))"

definition add_keyword_hit ::
  "string list \<Rightarrow> nat \<Rightarrow> (doc_key \<times> hit) list \<Rightarrow> archive_record \<Rightarrow> (doc_key \<times> hit) list" where
  "add_keyword_hit keywords max_id combined record =
     (let base_score = (if max_id > 0 \<and> int (rec_id record) \<ge> int max_id - 5
                        then 0.3 + 0.1 else 0.3 :: real);
          (snippet, matched_source) = keyword_snippet record keywords
      in case map_of combined (IntKey (rec_id record)) of
           None \<Rightarrow>
             AList.update (IntKey (rec_id record))
               \<lparr>hit_id = IntKey (rec_id record), score = base_score, source = ''keyword'',
                metadata = \<lparr>m_filename = filename record, m_category = category record,
                             m_summary = summary record, matched_content = snippet,
                             match_source = matched_source, rerank_score = None\<rparr>,
                original_score = None\<rparr> combined
         | Some existing \<Rightarrow>
             if base_score > score existing
             then AList.update (IntKey (rec_id record))
                    (existing\<lparr>score := base_score, source := ''keyword_boost''\<rparr>) combined
             else combined)"

definition candidate_text :: "hit \<Rightarrow> string" where
  "candidate_text item =
     (let meta = metadata item
      in if matched_content meta \<noteq> [] then matched_content meta
         else if or_str (m_summary meta) [] \<noteq> [] then or_str (m_summary meta) []
         else m_filename meta)"

text \<open>\<open>RerankService.rerank\<close> with its two runtimes, which differ only in the predictor.\<close>

definition rerank :: "reranker \<Rightarrow> string \<Rightarrow> string list \<Rightarrow> nat \<Rightarrow> error + (nat \<times> real) list" where
  "rerank model query candidates top_k =
     (if candidates = [] then Inr []
      else (case model of
              Unavailable \<Rightarrow> Inl (RuntimeError ''Rerank model is not available.'')
            | Model predict \<Rightarrow>
                (case predict query (map (take 2000) candidates) of
                   Inl e \<Rightarrow> Inr (take top_k (map (\<lambda>i. (i, 0)) [0..<length candidates]))
                 | Inr scores \<Rightarrow>
                     Inr (take top_k (sort_key (\<lambda>x. - snd x) (enumerate 0 scores))))))"

definition sigmoid :: "real \<Rightarrow> real" where
  "sigmoid x = 1 / (1 + exp (- x))"

definition content_to_check :: "hit \<Rightarrow> string" where
  "content_to_check item =
     matched_content (metadata item) @ or_str (m_summary (metadata item)) []
       @ m_filename (metadata item)"

definition has_kw :: "string list \<Rightarrow> hit \<Rightarrow> bool" where
  "has_kw keywords item =
     list_ex (\<lambda>k. contains (lower (content_to_check item)) (lower k)) keywords"

text \<open>
  One turn of the loop over the reranked indices: calibration, keyword verification,
  threshold. \<open>None\<close> is the \<open>continue\<close> of a dropped item.
\<close>

definition rerank_item :: "string list \<Rightarrow> hit \<Rightarrow> real \<Rightarrow> hit option" where
  "rerank_item keywords item raw =
     (let norm_score = sigmoid raw;
          item1 = item\<lparr>original_score :=
                         (case original_score item of None \<Rightarrow> Some (score item) | Some v \<Rightarrow> Some v),
                       score := norm_score,
                       metadata := (metadata item)\<lparr>rerank_score := Some norm_score\<rparr>\<rparr>;
          penalized = (keywords \<noteq> [] \<and> \<not> has_kw keywords item1 \<and> norm_score < 0.85);
          norm_score2 = (if penalized then norm_score * 0.5 else norm_score);
          item2 = (if penalized
                   then item1\<lparr>score := norm_score2,
                              metadata := (metadata item1)\<lparr>rerank_score := Some norm_score2\<rparr>\<rparr>
                   else item1)
      in if norm_score2 < 0.40 then None else Some item2)"

definition rerank_loop :: "string list \<Rightarrow> hit list \<Rightarrow> (nat \<times> real) list \<Rightarrow> hit list" where
  "rerank_loop keywords candidate_items reranked_indices =
     concat (map (\<lambda>(idx, raw).
        if idx < length candidate_items
        then (case rerank_item keywords (candidate_items ! idx) raw of
                None \<Rightarrow> [] | Some item \<Rightarrow> [item])
        else []) reranked_indices)"

text \<open>
  Step 4 of \<open>hybrid_search\<close>, from the merged candidates to the returned list: the
  rerank path, and the fallback sort when the rerank call raises.
\<close>

definition rerank_stage ::
  "reranker \<Rightarrow> string \<Rightarrow> string list \<Rightarrow> nat \<Rightarrow> (doc_key \<times> hit) list \<Rightarrow> hit list" where
  "rerank_stage model query_text keywords top_k combined =
     (let candidate_items = map snd combined
      in if candidate_items = [] then []
         else (case rerank model query_text (map candidate_text candidate_items) top_k of
                 Inr reranked_indices \<Rightarrow> rerank_loop keywords candidate_items reranked_indices
               | Inl e \<Rightarrow> take top_k (sort_key (\<lambda>x. - score x) (map snd combined))))"

definition hybrid_search ::
  "world \<Rightarrow> database \<Rightarrow> string \<Rightarrow> string list option \<Rightarrow> nat \<Rightarrow> nat \<Rightarrow> string option
     \<Rightarrow> string option \<Rightarrow> error + hit list" where
  "hybrid_search w db query_text keywords_arg top_k uid time_range ftype =
     (let keywords = (case keywords_arg of
                        None \<Rightarrow> extract_keywords query_text
                      | Some ks \<Rightarrow> if ks = [] then extract_keywords query_text else ks);
          vector_filters = (if or_str ftype [] \<noteq> [] then Some [(''file_type'', or_str ftype [])]
                            else None);
          enhanced_query = (if keywords \<noteq> [] then query_text @ '' '' @ join '' '' keywords
                            else query_text);
          recall_k = (if top_k < 10 then top_k * 3 else top_k * 2);
          vector_results = search_by_vector w db enhanced_query recall_k vector_filters uid 0.45;
          keyword_results = search_by_keywords db keywords recall_k uid ftype;
          id_set = map vr_id vector_results @ map rec_id keyword_results;
          records = filter (\<lambda>r. rec_id r \<in> set id_set) (archives db)
      in case filter_raising (\<lambda>r. pass_time w records time_range (vr_id r)) vector_results of
           Inl e \<Rightarrow> Inl e
         | Inr vector_results' \<Rightarrow>
             (case filter_raising (\<lambda>r. pass_time w records time_range (rec_id r)) keyword_results of
                Inl e \<Rightarrow> Inl e
              | Inr keyword_results' \<Rightarrow>
                  (let max_id = max (max_list (map rec_id keyword_results'))
                                    (max_list (map vr_id vector_results'));
                       combined = foldl (add_keyword_hit keywords max_id)
                                    (foldl add_vector_hit [] vector_results') keyword_results'
                   in Inr (rerank_stage (rerank_model w) query_text keywords top_k combined))))"

definition stamped :: "archive_record \<Rightarrow> vector \<Rightarrow> datetime \<Rightarrow> archive_record" where
  "stamped record vec now =
     (if vec \<noteq> [] then record\<lparr>embedding := Some vec, is_vectorized := 1, vectorized_at := Some now\<rparr>
      else record)"

text \<open>
  The first lines of \<open>hybrid_search\<close> by themselves: the keyword list it works with and
  the text it sends to the embedding call.
\<close>

definition effective_keywords :: "string \<Rightarrow> string list option \<Rightarrow> string list" where
  "effective_keywords query_text keywords_arg =
     (case keywords_arg of
        None \<Rightarrow> extract_keywords query_text
      | Some ks \<Rightarrow> if ks = [] then extract_keywords query_text else ks)"

definition enhanced_query :: "string \<Rightarrow> string list \<Rightarrow> string" where
  "enhanced_query query_text keywords =
     (if keywords \<noteq> [] then query_text @ '' '' @ join '' '' keywords else query_text)"


definition midnight :: datetime where
  "midnight = \<lparr>ordinal = 738000, day_us = 0\<rparr>"

text \<open>
  The value of \<open>norm_score\<close> when the loop body reaches the threshold test: the
  calibrated score, halved when keywords exist, none of them occurs in the content
  and the calibrated score is below 0.85.
\<close>

definition final_score :: "string list \<Rightarrow> hit \<Rightarrow> real \<Rightarrow> real" where
  "final_score keywords item raw =
     (if keywords \<noteq> [] \<and> \<not> has_kw keywords item \<and> sigmoid raw < 0.85
      then sigmoid raw * 0.5 else sigmoid raw)"


text \<open>Worlds and a database for concrete searches.\<close>

definition invoice_record :: archive_record where
  "invoice_record =
     \<lparr>rec_id = 7, user_id = 1, filename = ''note.txt'', file_type = ''Documents'',
      category = None, summary = None, full_text = Some ''quarterly tax invoice'',
      relative_path = None, embedding = Some [1], is_vectorized = 1, vectorized_at = None,
      processed_at = None, meta_tags = [], semantic_date = None, structured_date = None,
      processing_status = COMPLETED, processing_error = None\<rparr>"

definition invoice_node :: vector_node where
  "invoice_node =
     \<lparr>node_id = 0, parent_archive_id = 7, content = ''quarterly tax invoice'', chunk_index = 0,
      node_embedding = [1], source_length = 21, is_image_desc = False\<rparr>"

definition invoice_db :: database where
  "invoice_db = \<lparr>archives = [invoice_record], vector_nodes = [invoice_node], next_node_id = 1\<rparr>"

text \<open>The embedding service is down: every call raises.\<close>

definition down_world :: world where
  "down_world =
     \<lparr>embed_text = (\<lambda>t. Inl (Exception ''all embedding models failed'')),
      rerank_model = Model (\<lambda>q cs. Inr (map (\<lambda>c. 0) cs)),
      clock = midnight\<rparr>"

text \<open>The embedding call raises on the one text \<open>invoice invoice\<close> and works on all others.\<close>

definition picky_world :: world where
  "picky_world =
     \<lparr>embed_text = (\<lambda>t. if t = ''invoice invoice'' then Inl (Exception ''timeout'') else Inr [1]),
      rerank_model = Model (\<lambda>q cs. Inr (map (\<lambda>c. 0) cs)),
      clock = midnight\<rparr>"

text \<open>Every text embeds to the same vector and every pair gets the logit 0.\<close>

definition flat_world :: world where
  "flat_world =
     \<lparr>embed_text = (\<lambda>t. Inr [1]),
      rerank_model = Model (\<lambda>q cs. Inr (map (\<lambda>c. 0) cs)),
      clock = midnight\<rparr>"

text \<open>A small database for concrete runs: one document with one chunk of an earlier pass.\<close>

definition note_record :: archive_record where
  "note_record =
     \<lparr>rec_id = 7, user_id = 1, filename = ''note.txt'', file_type = ''Documents'',
      category = None, summary = None, full_text = Some ''quarterly tax invoice'',
      relative_path = None, embedding = None, is_vectorized = 0, vectorized_at = None,
      processed_at = None, meta_tags = [], semantic_date = None, structured_date = None,
      processing_status = COMPLETED, processing_error = None\<rparr>"

definition old_node :: vector_node where
  "old_node =
     \<lparr>node_id = 0, parent_archive_id = 7, content = ''an earlier chunk'', chunk_index = 0,
      node_embedding = [1], source_length = 16, is_image_desc = False\<rparr>"

definition note_db :: database where
  "note_db = \<lparr>archives = [note_record], vector_nodes = [old_node], next_node_id = 1\<rparr>"

definition unit_embedder :: embedder where
  "unit_embedder t = Inr [1]"

definition photo_record :: archive_record where
  "photo_record =
     \<lparr>rec_id = 8, user_id = 1, filename = ''photo.jpg'', file_type = ''Images'',
      category = None, summary = None, full_text = Some ''family photo caption'',
      relative_path = None, embedding = None, is_vectorized = 0, vectorized_at = None,
      processed_at = None, meta_tags = [], semantic_date = None, structured_date = None,
      processing_status = COMPLETED, processing_error = None\<rparr>"

definition photo_node :: vector_node where
  "photo_node =
     \<lparr>node_id = 0, parent_archive_id = 8, content = ''family photo caption'', chunk_index = 0,
      node_embedding = [1], source_length = 20, is_image_desc = False\<rparr>"

text \<open>
  Two documents of one user: an invoice that only the keyword path finds (it has no
  vectors) and a photo caption with one chunk.
\<close>

definition photo_db :: database where
  "photo_db =
     \<lparr>archives = [note_record, photo_record], vector_nodes = [photo_node], next_node_id = 1\<rparr>"

text \<open>The reranker gives the first candidate the logit \<open>ln 5\<close> and the others 0.\<close>

definition steep_world :: world where
  "steep_world =
     \<lparr>embed_text = (\<lambda>t. Inr [1]),
      rerank_model = Model (\<lambda>q cs. Inr (map (\<lambda>i. if i = 0 then ln 5 else 0) [0..<length cs])),
      clock = midnight\<rparr>"


text \<open>A hit written out, for stating results.\<close>

definition mk_hit ::
  "doc_key \<Rightarrow> string \<Rightarrow> string \<Rightarrow> string \<Rightarrow> string \<Rightarrow> real \<Rightarrow> real option \<Rightarrow> real option \<Rightarrow> hit" where
  "mk_hit key src fname snippet msrc sc rr orig =
     \<lparr>hit_id = key, score = sc, source = src,
      metadata = \<lparr>m_filename = fname, m_category = None, m_summary = None,
                  matched_content = snippet, match_source = msrc, rerank_score = rr\<rparr>,
      original_score = orig\<rparr>"

text \<open>The rerank model is missing.\<close>

definition bare_world :: world where
  "bare_world = \<lparr>embed_text = (\<lambda>t. Inr [1]), rerank_model = Unavailable, clock = midnight\<rparr>"

definition photo_hit :: "real \<Rightarrow> real option \<Rightarrow> real option \<Rightarrow> hit" where
  "photo_hit sc rr orig =
     mk_hit (StrKey 8) ''vector'' ''photo.jpg'' ''family photo caption'' ''child_node'' sc rr orig"

definition invoice_hit :: "real \<Rightarrow> real option \<Rightarrow> real option \<Rightarrow> hit" where
  "invoice_hit sc rr orig =
     mk_hit (IntKey 7) ''keyword'' ''note.txt'' ''quarterly tax invoice''
       ''keyword_fulltext_snippet'' sc rr orig"








section \<open>Properties of the EventBus\<close>

lemma handlers_for_subscribe_same:
  "handlers_for (subscribe subs en h) en =
     (if hname h \<in> set (map hname (handlers_for subs en)) then handlers_for subs en
      else handlers_for subs en @ [h])"
  by (auto simp: subscribe_def handlers_for_def Let_def split: option.splits)

lemma handlers_for_subscribe_other:
  "en' \<noteq> en \<Longrightarrow> handlers_for (subscribe subs en h) en' = handlers_for subs en'"
  by (auto simp: subscribe_def handlers_for_def Let_def split: option.splits)

lemma subscribe_present_noop:
  "hname h \<in> set (map hname (handlers_for subs en)) \<Longrightarrow> subscribe subs en h = subs"
  by (auto simp: subscribe_def handlers_for_def Let_def split: option.splits)

lemma subscribe_keeps_distinct:
  assumes "distinct (map hname (handlers_for subs en'))"
  shows "distinct (map hname (handlers_for (subscribe subs en h) en'))"
proof (cases "en' = en")
  case True
  with assms show ?thesis by (simp add: handlers_for_subscribe_same)
next
  case False
  with assms show ?thesis by (simp add: handlers_for_subscribe_other)
qed

lemma bus_step_keeps_distinct:
  assumes "distinct (map hname (handlers_for subs en))"
  shows "distinct (map hname (handlers_for (bus_step subs op) en))"
proof (cases op)
  case (Subscribe event_name h)
  with assms show ?thesis by (simp add: subscribe_keeps_distinct)
next
  case Clear
  then show ?thesis by (simp add: clear_subscribers_def handlers_for_def)
next
  case (Publish ev)
  with assms show ?thesis by simp
qed

lemma foldl_bus_step_distinct:
  "distinct (map hname (handlers_for subs en)) \<Longrightarrow>
   distinct (map hname (handlers_for (foldl bus_step subs ops) en))"
  by (induction ops arbitrary: subs) (simp_all add: bus_step_keeps_distinct)

text \<open>
  C10. \<open>subscribe\<close> compares the \<open>__name__\<close> of the new handler with the names of the
  handlers already registered for the event: when the name is present the bus is left
  exactly as it was, whatever the identity or behaviour of the new handler, and in
  every bus reachable from the empty one the names registered for an event are
  pairwise different.
\<close>

theorem subscribe_dedup_by_name:
  "(hname h \<in> set (map hname (handlers_for subs en)) \<longrightarrow> subscribe subs en h = subs)
   \<and> distinct (map hname (handlers_for (bus_after ops) en))"
proof
  show "hname h \<in> set (map hname (handlers_for subs en)) \<longrightarrow> subscribe subs en h = subs"
    by (simp add: subscribe_present_noop)
  have "distinct (map hname (handlers_for empty_bus en))"
    by (simp add: empty_bus_def handlers_for_def)
  then show "distinct (map hname (handlers_for (bus_after ops) en))"
    unfolding bus_after_def by (rule foldl_bus_step_distinct)
qed

theorem subscribe_dedup_by_name_witness:
  "hname on_upload_b \<in> set (map hname (handlers_for (subscribe empty_bus ''e'' on_upload_a) ''e''))
   \<and> hident on_upload_b \<noteq> hident on_upload_a
   \<and> subscribe (subscribe empty_bus ''e'' on_upload_a) ''e'' on_upload_b
       = subscribe empty_bus ''e'' on_upload_a"
proof -
  have pre: "hname on_upload_b
      \<in> set (map hname (handlers_for (subscribe empty_bus ''e'' on_upload_a) ''e''))"
  proof -
    have "handlers_for empty_bus ''e'' = []"
      by (simp add: handlers_for_def empty_bus_def)
    then have "handlers_for (subscribe empty_bus ''e'' on_upload_a) ''e'' = [on_upload_a]"
      by (simp add: handlers_for_subscribe_same)
    then show ?thesis
      by (simp add: on_upload_a_def on_upload_b_def)
  qed
  have ids: "hident on_upload_b \<noteq> hident on_upload_a"
    by (simp add: on_upload_a_def on_upload_b_def)
  from subscribe_dedup_by_name [of on_upload_b "subscribe empty_bus ''e'' on_upload_a" "''e''" "[]"] pre
  have "subscribe (subscribe empty_bus ''e'' on_upload_a) ''e'' on_upload_b
       = subscribe empty_bus ''e'' on_upload_a"
    by blast
  with pre ids show ?thesis by blast
qed

lemma execute_handler_finishes:
  "finishes h ev \<Longrightarrow>
   execute_handler h ev =
     (Some (Inr ()),
      if isl (hcall h ev) then [''Error handling event '' @ name ev @ '' in '' @ hname h] else [])"
  by (auto simp: execute_handler_def finishes_def split: sum.splits)

lemma execute_handler_pending:
  "\<not> finishes h ev \<Longrightarrow> execute_handler h ev = (None, [])"
  by (auto simp: execute_handler_def finishes_def split: sum.splits)

text \<open>
  When every handler registered for the event finishes, \<open>publish\<close> returns normally, has
  called each of them, and has logged one line for each handler that raised.
\<close>

lemma publish_isolates_finishing_handlers:
  assumes "list_all (\<lambda>h. finishes h ev) (handlers_for subs (name ev))"
  shows "seen_by_publisher (publish subs ev) = Some (Inr ())
   \<and> invoked (publish subs ev) = handlers_for subs (name ev)
   \<and> length (error_log (publish subs ev))
       = length (filter (\<lambda>h. isl (hcall h ev)) (handlers_for subs (name ev)))"
proof -
  have len: "list_all (\<lambda>h. finishes h ev) hs \<Longrightarrow>
      length (concat (map (\<lambda>h. snd (execute_handler h ev)) hs))
      = length (filter (\<lambda>h. isl (hcall h ev)) hs)" for hs
    by (induction hs) (auto simp: execute_handler_finishes)
  have fin: "list_all (\<lambda>h. finishes h ev) hs \<Longrightarrow>
      list_all (\<lambda>r. r \<noteq> None) (map (\<lambda>h. fst (execute_handler h ev)) hs)" for hs
    by (induction hs) (auto simp: execute_handler_finishes)
  show ?thesis
  proof (cases "subs (name ev)")
    case None
    then show ?thesis by (simp add: publish_def handlers_for_def)
  next
    case (Some hs)
    with assms have a: "list_all (\<lambda>h. finishes h ev) hs" by (simp add: handlers_for_def)
    show ?thesis
      using Some len [OF a] fin [OF a]
      by (simp add: publish_def handlers_for_def gather_return_exceptions_def Let_def comp_def)
  qed
qed

lemma publish_invokes_all: "invoked (publish subs ev) = handlers_for subs (name ev)"
  by (cases "subs (name ev)") (simp_all add: publish_def handlers_for_def Let_def comp_def)

lemma three_subscriptions:
  assumes "hname b \<noteq> hname a" and "hname c \<noteq> hname a" and "hname c \<noteq> hname b"
  shows "handlers_for (subscribe (subscribe (subscribe empty_bus en a) en b) en c) en = [a, b, c]"
proof -
  have "handlers_for empty_bus en = []"
    by (simp add: handlers_for_def empty_bus_def)
  with assms show ?thesis
    by (simp add: handlers_for_subscribe_same)
qed

text \<open>
  C8 at a failing input. A plain function that raises \<open>StopIteration\<close> is subscribed
  between two handlers that work. All three are called, but the exception of the middle
  one is neither caught nor logged, and \<open>publish\<close> never returns to the publisher.
\<close>

theorem publish_pending_on_stop_iteration:
  "handlers_for (subscribe (subscribe (subscribe empty_bus ''FILE_UPLOADED'' on_upload_a)
       ''FILE_UPLOADED'' first_row) ''FILE_UPLOADED'' audit) ''FILE_UPLOADED''
     = [on_upload_a, first_row, audit]
   \<and> hcall first_row upload_event = Inl StopIteration
   \<and> publish (subscribe (subscribe (subscribe empty_bus ''FILE_UPLOADED'' on_upload_a)
       ''FILE_UPLOADED'' first_row) ''FILE_UPLOADED'' audit) upload_event
     = \<lparr>seen_by_publisher = None, invoked = [on_upload_a, first_row, audit], error_log = []\<rparr>"
proof -
  let ?bus = "subscribe (subscribe (subscribe empty_bus ''FILE_UPLOADED'' on_upload_a)
       ''FILE_UPLOADED'' first_row) ''FILE_UPLOADED'' audit"
  have h3: "handlers_for ?bus ''FILE_UPLOADED'' = [on_upload_a, first_row, audit]"
    by (rule three_subscriptions) (simp_all add: on_upload_a_def first_row_def audit_def)
  then have sub: "?bus ''FILE_UPLOADED'' = Some [on_upload_a, first_row, audit]"
    by (cases "?bus ''FILE_UPLOADED''") (simp_all add: handlers_for_def)
  have n: "name upload_event = ''FILE_UPLOADED''" by (simp add: upload_event_def)
  have e1: "execute_handler on_upload_a upload_event = (Some (Inr ()), [])"
    by (simp add: execute_handler_def on_upload_a_def)
  have e2: "execute_handler first_row upload_event = (None, [])"
    by (simp add: execute_handler_def first_row_def)
  have e3: "execute_handler audit upload_event = (Some (Inr ()), [])"
    by (simp add: execute_handler_def audit_def)
  have p: "publish ?bus upload_event
     = \<lparr>seen_by_publisher = None, invoked = [on_upload_a, first_row, audit], error_log = []\<rparr>"
    by (simp add: publish_def n sub Let_def e1 e2 e3 gather_return_exceptions_def)
  have c: "hcall first_row upload_event = Inl StopIteration" by (simp add: first_row_def)
  from h3 c p show ?thesis by blast
qed

section \<open>Properties of the IndexerStage\<close>

lemma slice_clip: "slice t s (min (s + 2000) (length t)) = take 2000 (drop s t)"
  by (simp add: slice_def min_def)

lemma count_step:
  "start < n \<Longrightarrow> (n - start + 1799) div 1800 = Suc ((n - (start + 1800) + 1799) div 1800)"
  for n start :: nat
  by (cases "n - start \<le> 1800") (simp_all add: div_nat_eqI)

lemma map_upt_shift:
  "map f [0..<Suc n] = f 0 # map (\<lambda>k. f (Suc k)) [0..<n]"
  by (simp add: upt_conv_Cons map_Suc_upt [symmetric] del: upt_Suc)

lemma chunk_loop_eq:
  "chunk_loop t start chunks =
     chunks @ map (\<lambda>k. take 2000 (drop (start + k * 1800) t))
                  [0..<(length t - start + 1799) div 1800]"
proof (induction t start chunks rule: chunk_loop.induct)
  case (1 t start chunks)
  show ?case
  proof (cases "start < length t")
    case True
    have ih: "chunk_loop t (start + 1800) (chunks @ [take 2000 (drop start t)]) =
              (chunks @ [take 2000 (drop start t)]) @
              map (\<lambda>k. take 2000 (drop (start + 1800 + k * 1800) t))
                  [0..<(length t - (start + 1800) + 1799) div 1800]"
      using "1.IH" [OF True] by (simp add: CHUNK_SIZE_def OVERLAP_def slice_clip)
    have unfold: "chunk_loop t start chunks =
          chunk_loop t (start + 1800) (chunks @ [take 2000 (drop start t)])"
      using True by (subst chunk_loop.simps) (simp add: CHUNK_SIZE_def OVERLAP_def slice_clip)
    have shift: "map (\<lambda>k. take 2000 (drop (start + k * 1800) t))
                  [0..<Suc ((length t - (start + 1800) + 1799) div 1800)] =
          take 2000 (drop start t) #
          map (\<lambda>k. take 2000 (drop (start + 1800 + k * 1800) t))
                  [0..<(length t - (start + 1800) + 1799) div 1800]"
      by (subst map_upt_shift) (simp add: add.assoc)
    show ?thesis
      unfolding unfold ih count_step [OF True] shift by simp
  next
    case False
    then show ?thesis by (subst chunk_loop.simps) simp
  qed
qed

lemma make_chunks_eq:
  "make_chunks t =
     (if length t > 2000
      then map (\<lambda>i. slice t (i * 1800) (min (i * 1800 + 2000) (length t)))
               [0..<(length t + 1799) div 1800]
      else [t])"
  by (simp add: make_chunks_def chunk_loop_eq CHUNK_SIZE_def slice_clip)

lemma embed_chunks_raises:
  "chunks_raise ai ics \<Longrightarrow> isl (embed_chunks ai aid n img ics db)"
  by (induction ai aid n img ics db rule: embed_chunks.induct)
     (auto simp: chunks_raise_def split: sum.splits)

lemma embed_chunks_ok:
  "\<not> chunks_raise ai ics \<Longrightarrow>
   embed_chunks ai aid n img ics db =
     Inr (db\<lparr>vector_nodes := vector_nodes db @ new_nodes ai aid n img ics (next_node_id db),
            next_node_id := next_node_id db + length (new_nodes ai aid n img ics (next_node_id db))\<rparr>)"
proof (induction ai aid n img ics db rule: embed_chunks.induct)
  case (1 ai archive_id src_len img db)
  then show ?case by simp
next
  case (2 ai archive_id src_len img i chunk rest db)
  then show ?case
    by (auto simp: chunks_raise_def storable_def add_node_def split: sum.splits)
qed

lemma new_nodes_parent:
  "list_all (\<lambda>x. parent_archive_id x = aid) (new_nodes ai aid n img ics k)"
  by (induction ai aid n img ics k rule: new_nodes.induct) auto

lemma new_nodes_index_content:
  "map (\<lambda>x. (chunk_index x, content x)) (new_nodes ai aid n img ics k)
     = filter (\<lambda>(i, c). storable ai c) ics"
  by (induction ai aid n img ics k rule: new_nodes.induct) auto



lemma new_nodes_long_enough:
  "list_all (\<lambda>x. 10 \<le> length (strip (content x))) (new_nodes ai aid n img ics k)"
  by (induction ai aid n img ics k rule: new_nodes.induct) (auto simp: storable_def)

lemma filter_other_parent:
  "length (filter (\<lambda>n. parent_archive_id n = aid) ns) = 0 \<Longrightarrow>
   filter (\<lambda>n. parent_archive_id n \<noteq> aid) ns = ns"
  by (induction ns) (auto split: if_splits)


lemma pass_committed:
  assumes "find (\<lambda>r. rec_id r = aid) (archives db) = Some rcd"
    and "strip (text_to_embed rcd) \<noteq> []"
    and "ai (take 2000 (text_to_embed rcd)) = Inr vec"
    and "\<not> chunks_raise ai (enumerate 0 (make_chunks (text_to_embed rcd)))"
  shows "process_vectorization ai now db aid =
    (Committed,
     db\<lparr>archives := update_record aid (stamped rcd vec now) (archives db),
        vector_nodes := filter (\<lambda>n. parent_archive_id n \<noteq> aid) (vector_nodes db) @
           new_nodes ai aid (length (text_to_embed rcd)) (file_type rcd = ''image'')
             (enumerate 0 (make_chunks (text_to_embed rcd))) (next_node_id db),
        next_node_id := next_node_id db +
           length (new_nodes ai aid (length (text_to_embed rcd)) (file_type rcd = ''image'')
             (enumerate 0 (make_chunks (text_to_embed rcd))) (next_node_id db))\<rparr>)"
proof (cases "length (filter (\<lambda>n. parent_archive_id n = aid) (vector_nodes db)) = 0")
  case True
  then show ?thesis
    using assms
    by (simp add: process_vectorization_def Let_def embed_chunks_ok stamped_def
        filter_other_parent)
next
  case False
  then show ?thesis
    using assms
    by (simp add: process_vectorization_def Let_def embed_chunks_ok stamped_def)
qed

lemma pass_committed_iff:
  "fst (process_vectorization ai now db aid) = Committed \<Longrightarrow>
   \<exists>rcd vec. find (\<lambda>r. rec_id r = aid) (archives db) = Some rcd
     \<and> strip (text_to_embed rcd) \<noteq> []
     \<and> ai (take 2000 (text_to_embed rcd)) = Inr vec
     \<and> \<not> chunks_raise ai (enumerate 0 (make_chunks (text_to_embed rcd)))"
proof -
  assume c: "fst (process_vectorization ai now db aid) = Committed"
  then obtain rcd where f: "find (\<lambda>r. rec_id r = aid) (archives db) = Some rcd"
    by (cases "find (\<lambda>r. rec_id r = aid) (archives db)") (auto simp: process_vectorization_def)
  from c f have s: "strip (text_to_embed rcd) \<noteq> []"
    by (auto simp: process_vectorization_def Let_def split: if_splits)
  from c f s obtain vec where v: "ai (take 2000 (text_to_embed rcd)) = Inr vec"
    by (cases "ai (take 2000 (text_to_embed rcd))") (auto simp: process_vectorization_def Let_def)
  have "\<not> chunks_raise ai (enumerate 0 (make_chunks (text_to_embed rcd)))"
  proof
    assume r: "chunks_raise ai (enumerate 0 (make_chunks (text_to_embed rcd)))"
    have ne: "embed_chunks ai aid (length (text_to_embed rcd)) (file_type rcd = ''image'')
            (enumerate 0 (make_chunks (text_to_embed rcd))) d \<noteq> Inr x" for d x
      using embed_chunks_raises [OF r, of aid "length (text_to_embed rcd)"
          "file_type rcd = ''image''" d] by auto
    show False using c f s v
      by (auto simp: process_vectorization_def Let_def ne split: sum.splits if_splits)
  qed
  with f s v show ?thesis by blast
qed


lemma find_rec_id: "find (\<lambda>r. rec_id r = aid) rs = Some r \<Longrightarrow> rec_id r = aid"
  by (induction rs) (auto split: if_splits)


lemma filter_parent_removed:
  "filter (\<lambda>n. parent_archive_id n = aid) (filter (\<lambda>n. parent_archive_id n \<noteq> aid) old) = []"
  by (induction old) auto

lemma filter_parent_new_nodes:
  "filter (\<lambda>n. parent_archive_id n = aid) (new_nodes ai aid n img ics k)
      = new_nodes ai aid n img ics k"
  using new_nodes_parent [of aid ai n img ics k] by (simp add: list_all_iff)








lemma committed_nodes:
  assumes "find (\<lambda>r. rec_id r = aid) (archives db) = Some rcd"
    and "fst (process_vectorization ai now db aid) = Committed"
  shows "nodes_of (snd (process_vectorization ai now db aid)) aid =
     new_nodes ai aid (length (text_to_embed rcd)) (file_type rcd = ''image'')
             (enumerate 0 (make_chunks (text_to_embed rcd))) (next_node_id db)"
proof -
  from pass_committed_iff [OF assms(2)] assms(1) obtain vec where
    h: "find (\<lambda>r. rec_id r = aid) (archives db) = Some rcd"
       "strip (text_to_embed rcd) \<noteq> []"
       "ai (take 2000 (text_to_embed rcd)) = Inr vec"
       "\<not> chunks_raise ai (enumerate 0 (make_chunks (text_to_embed rcd)))"
    by auto
  show ?thesis
    by (simp add: pass_committed [OF h] nodes_of_def filter_parent_removed filter_parent_new_nodes)
qed


lemma note_text_strip: "strip (text_to_embed note_record) \<noteq> []"
  by (simp add: strip_def text_to_embed_def meta_header_def body_content_def note_record_def
      or_str_def isspace_def)

lemma note_committed: "fst (process_vectorization unit_embedder midnight note_db 7) = Committed"
proof -
  have f: "find (\<lambda>r. rec_id r = 7) (archives note_db) = Some note_record"
    by (simp add: note_db_def note_record_def)
  have e: "unit_embedder (take 2000 (text_to_embed note_record)) = Inr [1]"
    by (simp add: unit_embedder_def)
  have r: "\<not> chunks_raise unit_embedder (enumerate 0 (make_chunks (text_to_embed note_record)))"
    by (simp add: chunks_raise_def list_ex_iff unit_embedder_def split_def)
  show ?thesis by (simp add: pass_committed [OF f note_text_strip e r])
qed


text \<open>
  C6 (as the code has it). A text longer than 2,000 characters is cut into
  \<open>ceil(len / 1800)\<close> chunks, chunk \<open>i\<close> being the characters from \<open>i * 1800\<close> up to
  \<open>min (i * 1800 + 2000) len\<close>: a window that fits has 2,000 characters, a window clipped
  by the end of the text is shorter. A text of at most 2,000 characters is one chunk.
  A text of 5,000 characters gives 3 chunks and chunk 1 starts at character 1,800.
  After a committed pass the stored nodes of the document are exactly the chunks that
  are storable, under their index in the chunk list, and each has a stripped length of
  at least 10.
\<close>

theorem chunk_windows:
  "make_chunks t =
     (if 2000 < length t
      then map (\<lambda>i. slice t (i * 1800) (min (i * 1800 + 2000) (length t)))
               [0..<(length t + 1799) div 1800]
      else [t])
   \<and> (length t = 5000 \<longrightarrow> length (make_chunks t) = 3 \<and> make_chunks t ! 1 = slice t 1800 3800)
   \<and> (find (\<lambda>r. rec_id r = aid) (archives db) = Some rcd
        \<and> fst (process_vectorization ai now db aid) = Committed \<longrightarrow>
        map (\<lambda>x. (chunk_index x, content x)) (nodes_of (snd (process_vectorization ai now db aid)) aid)
          = filter (\<lambda>(i, c). storable ai c) (enumerate 0 (make_chunks (text_to_embed rcd)))
        \<and> list_all (\<lambda>x. 10 \<le> length (strip (content x)))
             (nodes_of (snd (process_vectorization ai now db aid)) aid))"
proof (intro conjI impI)
  show "make_chunks t =
     (if 2000 < length t
      then map (\<lambda>i. slice t (i * 1800) (min (i * 1800 + 2000) (length t)))
               [0..<(length t + 1799) div 1800]
      else [t])"
    by (rule make_chunks_eq)
next
  assume "length t = 5000"
  then show "length (make_chunks t) = 3" by (simp add: make_chunks_eq)
next
  assume l: "length t = 5000"
  have "[0..<3] ! 1 = (1::nat)" by (simp add: upt_rec_numeral)
  then show "make_chunks t ! 1 = slice t 1800 3800"
    using l by (simp add: make_chunks_eq nth_map)
next
  assume "find (\<lambda>r. rec_id r = aid) (archives db) = Some rcd
        \<and> fst (process_vectorization ai now db aid) = Committed"
  then show "map (\<lambda>x. (chunk_index x, content x)) (nodes_of (snd (process_vectorization ai now db aid)) aid)
          = filter (\<lambda>(i, c). storable ai c) (enumerate 0 (make_chunks (text_to_embed rcd)))"
    by (simp add: committed_nodes new_nodes_index_content)
next
  assume "find (\<lambda>r. rec_id r = aid) (archives db) = Some rcd
        \<and> fst (process_vectorization ai now db aid) = Committed"
  then show "list_all (\<lambda>x. 10 \<le> length (strip (content x)))
             (nodes_of (snd (process_vectorization ai now db aid)) aid)"
    by (simp add: committed_nodes new_nodes_long_enough)
qed

theorem chunk_windows_witness:
  "length (replicate 5000 (CHR ''a'')) = 5000
   \<and> length (make_chunks (replicate 5000 (CHR ''a''))) = 3
   \<and> make_chunks (replicate 5000 (CHR ''a'')) ! 1 = slice (replicate 5000 (CHR ''a'')) 1800 3800
   \<and> find (\<lambda>r. rec_id r = 7) (archives note_db) = Some note_record
   \<and> fst (process_vectorization unit_embedder midnight note_db 7) = Committed
   \<and> list_all (\<lambda>x. 10 \<le> length (strip (content x)))
        (nodes_of (snd (process_vectorization unit_embedder midnight note_db 7)) 7)"
proof -
  have l: "length (replicate 5000 (CHR ''a'')) = 5000" by simp
  have f: "find (\<lambda>r. rec_id r = 7) (archives note_db) = Some note_record"
    by (simp add: note_db_def note_record_def)
  show ?thesis
    using chunk_windows [where t = "replicate 5000 (CHR ''a'')" and aid = 7 and db = note_db
        and rcd = note_record and ai = unit_embedder and now = midnight]
      l f note_committed
    by blast
qed

text \<open>
  C6 as stated lets only the last window be short. For a text of 3,700 characters the
  loop makes three chunks, and chunk 1, which is not the last, has 1,900 characters:
  the loop goes on while \<open>start < len\<close>, so a last chunk inside the overlap follows.
\<close>

theorem chunk_window_counterexample:
  "2000 < length (replicate 3700 (CHR ''a''))
   \<and> length (make_chunks (replicate 3700 (CHR ''a''))) = 3
   \<and> length (make_chunks (replicate 3700 (CHR ''a'')) ! 1) = 1900"
proof -
  have "[0..<3] ! 1 = (1::nat)" by (simp add: upt_rec_numeral)
  then show ?thesis
    by (simp add: make_chunks_eq nth_map slice_def)
qed

section \<open>Properties of retrieval\<close>


lemma search_by_vector_absorbs:
  "isl (embed_text w q) \<or> embed_text w q = Inr [] \<Longrightarrow> search_by_vector w db q k fs uid ms = []"
  by (auto simp: search_by_vector_def split: sum.splits)

lemma sigmoid_zero: "sigmoid 0 = 1 / 2"
  by (simp add: sigmoid_def)

lemma sigmoid_ln: "0 < x \<Longrightarrow> sigmoid (ln x) = x / (x + 1)"
  by (simp add: sigmoid_def exp_minus field_simps)

lemma has_kw_meta:
  "has_kw ks (h\<lparr>original_score := a, score := b, metadata := (metadata h)\<lparr>rerank_score := c\<rparr>\<rparr>) = has_kw ks h"
  by (simp add: has_kw_def content_to_check_def)

lemma invoice_keyword_results:
  "search_by_keywords invoice_db [''invoice''] 15 (Suc 0) None = [invoice_record]"
  by (simp add: search_by_keywords_def invoice_db_def or_str_def like_any_def contains_def
      str_find_def invoice_record_def)

lemma invoice_snippet:
  "keyword_snippet invoice_record [''invoice''] = (''quarterly tax invoice'', ''keyword_fulltext_snippet'')"
  by (simp add: keyword_snippet_def invoice_record_def or_str_def lower_def lower_char_def
      str_find_def slice_def strip_def isspace_def)

lemma invoice_add_keyword:
  "add_keyword_hit [''invoice''] 7 [] invoice_record =
     [(IntKey 7, mk_hit (IntKey 7) ''keyword'' ''note.txt'' ''quarterly tax invoice''
                   ''keyword_fulltext_snippet'' (2/5) None None)]"
  by (simp add: add_keyword_hit_def invoice_snippet mk_hit_def)
     (simp add: invoice_record_def)

lemma invoice_has_kw:
  "has_kw [''invoice''] (mk_hit key src ''note.txt'' ''quarterly tax invoice'' msrc sc rr orig)"
  by (simp add: has_kw_def content_to_check_def mk_hit_def or_str_def lower_def
      lower_char_def contains_def str_find_def)

lemma mk_hit_rerank_item:
  "rerank_item ks (mk_hit key src fname snip msrc sc None None) raw =
     (if final_score ks (mk_hit key src fname snip msrc sc None None) raw < 0.40 then None
      else Some (mk_hit key src fname snip msrc
                   (final_score ks (mk_hit key src fname snip msrc sc None None) raw)
                   (Some (final_score ks (mk_hit key src fname snip msrc sc None None) raw))
                   (Some sc)))"
  by (simp add: rerank_item_def final_score_def Let_def has_kw_meta)
     (simp add: mk_hit_def)

lemma rerank_item_final:
  "rerank_item keywords item raw =
     (if final_score keywords item raw < 0.40 then None
      else Some (item\<lparr>original_score :=
                         (case original_score item of None \<Rightarrow> Some (score item) | Some v \<Rightarrow> Some v),
                       score := final_score keywords item raw,
                       metadata := (metadata item)\<lparr>rerank_score := Some (final_score keywords item raw)\<rparr>\<rparr>))"
  by (simp add: rerank_item_def final_score_def Let_def has_kw_meta)

lemma rerank_item_score:
  "rerank_item keywords item raw = Some h \<Longrightarrow>
   score h = final_score keywords item raw \<and> 0.40 \<le> score h"
  by (auto simp: rerank_item_final split: if_splits)


lemma l2_same: "l2 [1] [1] = 0"
  by (simp add: l2_def)

lemma invoice_vector_results:
  "ms \<le> 1 \<Longrightarrow> search_by_vector flat_world invoice_db q 15 None (Suc 0) ms =
     [\<lparr>vr_id = 7, vr_score = 1,
       vr_metadata = \<lparr>m_filename = ''note.txt'', m_category = None, m_summary = None,
                       matched_content = ''quarterly tax invoice'', match_source = ''child_node'',
                       rerank_score = None\<rparr>\<rparr>]"
  by (simp add: search_by_vector_def flat_world_def invoice_db_def nearest_def parent_rows_def
      filter_has_def filter_get_def invoice_record_def invoice_node_def add_child_def
      add_parent_def calc_score_def l2_same final_result_def record_map_get_def Let_def)

lemma photo_vector_results:
  "embed_text w q = Inr [1] \<Longrightarrow> ms \<le> 1 \<Longrightarrow>
   search_by_vector w photo_db q 15 None (Suc 0) ms =
     [\<lparr>vr_id = 8, vr_score = 1,
       vr_metadata = \<lparr>m_filename = ''photo.jpg'', m_category = None, m_summary = None,
                       matched_content = ''family photo caption'', match_source = ''child_node'',
                       rerank_score = None\<rparr>\<rparr>]"
  by (simp add: search_by_vector_def photo_db_def nearest_def parent_rows_def
      filter_has_def filter_get_def photo_record_def note_record_def photo_node_def add_child_def
      add_parent_def calc_score_def l2_same final_result_def record_map_get_def Let_def)

lemma photo_keyword_results:
  "search_by_keywords photo_db [''invoice''] 15 (Suc 0) None = [note_record]"
  by (simp add: search_by_keywords_def photo_db_def or_str_def like_any_def contains_def
      str_find_def note_record_def photo_record_def)


lemma note_snippet:
  "keyword_snippet note_record [''invoice''] = (''quarterly tax invoice'', ''keyword_fulltext_snippet'')"
  by (simp add: keyword_snippet_def note_record_def or_str_def lower_def lower_char_def
      str_find_def slice_def strip_def isspace_def)

lemma no_range_passes: "pass_time w recs None d = Inr True"
  by (simp add: pass_time_def match_time_range_def split: option.splits)

lemma filter_raising_all:
  "(\<And>x. p x = Inr True) \<Longrightarrow> filter_raising p xs = Inr xs"
  by (induction xs) simp_all

lemma photo_has_no_kw:
  "\<not> has_kw [''invoice''] (mk_hit key src ''photo.jpg'' ''family photo caption'' msrc sc rr orig)"
  by (simp add: has_kw_def content_to_check_def mk_hit_def or_str_def lower_def
      lower_char_def contains_def str_find_def)

lemma max_list_simps: "max_list [] = 0" "max_list [a] = a"
  by (simp_all add: max_list_def)

lemma hybrid_search_without_vectors:
  assumes "isl (embed_text w (enhanced_query query_text (effective_keywords query_text kws)))
     \<or> embed_text w (enhanced_query query_text (effective_keywords query_text kws)) = Inr []"
  shows "hybrid_search w db query_text kws top_k uid tr ftype =
      (let keywords = effective_keywords query_text kws;
           keyword_results = search_by_keywords db keywords (if top_k < 10 then top_k * 3 else top_k * 2) uid ftype;
           records = filter (\<lambda>r. rec_id r \<in> set (map rec_id keyword_results)) (archives db)
       in case filter_raising (\<lambda>r. pass_time w records tr (rec_id r)) keyword_results of
            Inl e \<Rightarrow> Inl e
          | Inr krs \<Rightarrow>
              Inr (rerank_stage (rerank_model w) query_text keywords top_k
                (foldl (add_keyword_hit keywords (max_list (map rec_id krs))) [] krs)))"
proof -
  have v: "search_by_vector w db (enhanced_query query_text (effective_keywords query_text kws))
      k fs u ms = []" for k fs u ms
    using assms by (rule search_by_vector_absorbs)
  have e: "(if effective_keywords query_text kws \<noteq> []
            then query_text @ '' '' @ join '' '' (effective_keywords query_text kws)
            else query_text) = enhanced_query query_text (effective_keywords query_text kws)"
    by (simp add: enhanced_query_def)
  have "hybrid_search w db query_text kws top_k uid tr ftype =
      (let keywords = effective_keywords query_text kws;
           vector_filters = (if or_str ftype [] \<noteq> [] then Some [(''file_type'', or_str ftype [])]
                            else None);
           enhanced = enhanced_query query_text keywords;
           recall_k = (if top_k < 10 then top_k * 3 else top_k * 2);
           vector_results = search_by_vector w db enhanced recall_k vector_filters uid 0.45;
           keyword_results = search_by_keywords db keywords recall_k uid ftype;
           id_set = map vr_id vector_results @ map rec_id keyword_results;
           records = filter (\<lambda>r. rec_id r \<in> set id_set) (archives db)
       in case filter_raising (\<lambda>r. pass_time w records tr (vr_id r)) vector_results of
            Inl e \<Rightarrow> Inl e
          | Inr vector_results' \<Rightarrow>
              (case filter_raising (\<lambda>r. pass_time w records tr (rec_id r)) keyword_results of
                 Inl e \<Rightarrow> Inl e
               | Inr keyword_results' \<Rightarrow>
                   (let max_id = max (max_list (map rec_id keyword_results'))
                                     (max_list (map vr_id vector_results'));
                        combined = foldl (add_keyword_hit keywords max_id)
                                     (foldl add_vector_hit [] vector_results') keyword_results'
                    in Inr (rerank_stage (rerank_model w) query_text keywords top_k combined))))"
    unfolding hybrid_search_def effective_keywords_def [symmetric] Let_def e ..
  then show ?thesis
    by (simp add: Let_def v max_list_simps split: sum.splits)
qed

lemma down_world_run:
  "hybrid_search down_world invoice_db ''invoice'' (Some [''invoice'']) 5 1 None None =
     Inr [mk_hit (IntKey 7) ''keyword'' ''note.txt'' ''quarterly tax invoice''
            ''keyword_fulltext_snippet'' (1/2) (Some (1/2)) (Some (2/5))]"
proof -
  have a: "\<And>t. isl (embed_text down_world t) \<or> embed_text down_world t = Inr []"
    by (simp add: down_world_def)
  have rec: "rec_id invoice_record = 7" by (simp add: invoice_record_def)
  have ek: "effective_keywords ''invoice'' (Some [''invoice'']) = [''invoice'']"
    by (simp add: effective_keywords_def)
  have m: "rerank_model down_world = Model (\<lambda>q cs. Inr (map (\<lambda>c. 0) cs))"
    by (simp add: down_world_def)
  have fs: "final_score [''invoice''] (mk_hit (IntKey 7) ''keyword'' ''note.txt''
       ''quarterly tax invoice'' ''keyword_fulltext_snippet'' (2/5) None None) 0 = 1/2"
    by (simp add: final_score_def invoice_has_kw sigmoid_zero)
  show ?thesis
    by (simp add: hybrid_search_without_vectors [OF a] ek invoice_keyword_results
        no_range_passes filter_raising_all max_list_simps rec invoice_add_keyword m
        Let_def rerank_stage_def rerank_def rerank_loop_def mk_hit_rerank_item fs)
qed

text \<open>
  C1 (as the code has it). When the embedding call on the query text fails (it raises
  or returns no vector), \<open>search_by_vector\<close> catches the failure and returns the empty
  list. In \<open>hybrid_search\<close> the text that is embedded is the query with the keywords
  appended; when the call on that text fails, \<open>hybrid_search\<close> goes on with keyword
  recall alone: its result is the final stage run on the keyword candidates, and the
  only error it can return is one raised by the time filter.
\<close>

theorem embedding_failure_absorbed:
  "(isl (embed_text w q) \<or> embed_text w q = Inr [] \<longrightarrow>
      search_by_vector w db q k fs uid ms = [])
   \<and> (isl (embed_text w (enhanced_query query_text (effective_keywords query_text kws)))
        \<or> embed_text w (enhanced_query query_text (effective_keywords query_text kws)) = Inr [] \<longrightarrow>
      hybrid_search w db query_text kws top_k uid tr ftype =
        (let keywords = effective_keywords query_text kws;
             keyword_results = search_by_keywords db keywords (if top_k < 10 then top_k * 3 else top_k * 2) uid ftype;
             records = filter (\<lambda>r. rec_id r \<in> set (map rec_id keyword_results)) (archives db)
         in case filter_raising (\<lambda>r. pass_time w records tr (rec_id r)) keyword_results of
              Inl e \<Rightarrow> Inl e
            | Inr krs \<Rightarrow>
                Inr (rerank_stage (rerank_model w) query_text keywords top_k
                  (foldl (add_keyword_hit keywords (max_list (map rec_id krs))) [] krs))))"
  using hybrid_search_without_vectors [of w query_text kws db top_k uid tr ftype]
    search_by_vector_absorbs [of w q db k fs uid ms]
  by blast

theorem embedding_failure_absorbed_witness:
  "enhanced_query ''invoice'' (effective_keywords ''invoice'' (Some [''invoice''])) = ''invoice invoice''
   \<and> isl (embed_text picky_world ''invoice invoice'')
   \<and> embed_text picky_world ''invoice'' = Inr [1]
   \<and> search_by_vector picky_world invoice_db ''invoice invoice'' 15 None 1 0.45 = []
   \<and> hybrid_search picky_world invoice_db ''invoice'' (Some [''invoice'']) 5 1 None None =
       Inr (rerank_stage (rerank_model picky_world) ''invoice'' [''invoice''] 5
              (foldl (add_keyword_hit [''invoice''] 7) [] [invoice_record]))"
proof -
  have ek: "effective_keywords ''invoice'' (Some [''invoice'']) = [''invoice'']"
    by (simp add: effective_keywords_def)
  have eq: "enhanced_query ''invoice'' (effective_keywords ''invoice'' (Some [''invoice'']))
      = ''invoice invoice''"
    by (simp add: ek enhanced_query_def)
  have a: "isl (embed_text picky_world ''invoice invoice'')"
    by (simp add: picky_world_def)
  have b: "embed_text picky_world ''invoice'' = Inr [1]"
    by (simp add: picky_world_def)
  have rec: "rec_id invoice_record = 7" by (simp add: invoice_record_def)
  note t = embedding_failure_absorbed [of picky_world "''invoice invoice''" invoice_db 15 None 1
      "0.45" "''invoice''" "Some [''invoice'']" 5 None None]
  from t a have v: "search_by_vector picky_world invoice_db ''invoice invoice'' 15 None 1 0.45 = []"
    by blast
  from t a eq have "hybrid_search picky_world invoice_db ''invoice'' (Some [''invoice'']) 5 1 None None =
        (let keywords = effective_keywords ''invoice'' (Some [''invoice'']);
             keyword_results = search_by_keywords invoice_db keywords (if (5::nat) < 10 then 5 * 3 else 5 * 2) 1 None;
             records = filter (\<lambda>r. rec_id r \<in> set (map rec_id keyword_results)) (archives invoice_db)
         in case filter_raising (\<lambda>r. pass_time picky_world records None (rec_id r)) keyword_results of
              Inl e \<Rightarrow> Inl e
            | Inr krs \<Rightarrow>
                Inr (rerank_stage (rerank_model picky_world) ''invoice'' keywords 5
                  (foldl (add_keyword_hit keywords (max_list (map rec_id krs))) [] krs)))"
    by simp
  then have h: "hybrid_search picky_world invoice_db ''invoice'' (Some [''invoice'']) 5 1 None None =
       Inr (rerank_stage (rerank_model picky_world) ''invoice'' [''invoice''] 5
              (foldl (add_keyword_hit [''invoice''] 7) [] [invoice_record]))"
    by (simp add: ek invoice_keyword_results no_range_passes filter_raising_all max_list_simps
        rec Let_def)
  from eq a b v h show ?thesis by blast
qed

text \<open>
  C1 as stated asks for a hard error. With the embedding service down, the search for
  \<open>invoice\<close> returns normally with the keyword hit of document 7.
\<close>

theorem embedding_failure_counterexample:
  "embed_text down_world ''invoice invoice'' = Inl (Exception ''all embedding models failed'')
   \<and> hybrid_search down_world invoice_db ''invoice'' (Some [''invoice'']) 5 1 None None =
     Inr [mk_hit (IntKey 7) ''keyword'' ''note.txt'' ''quarterly tax invoice''
            ''keyword_fulltext_snippet'' (1/2) (Some (1/2)) (Some (2/5))]"
proof
  show "embed_text down_world ''invoice invoice'' = Inl (Exception ''all embedding models failed'')"
    by (simp add: down_world_def)
  show "hybrid_search down_world invoice_db ''invoice'' (Some [''invoice'']) 5 1 None None =
     Inr [mk_hit (IntKey 7) ''keyword'' ''note.txt'' ''quarterly tax invoice''
            ''keyword_fulltext_snippet'' (1/2) (Some (1/2)) (Some (2/5))]"
    by (rule down_world_run)
qed

lemma vr_as_hit:
  "add_vector_hit [] \<lparr>vr_id = n, vr_score = sc,
       vr_metadata = \<lparr>m_filename = fname, m_category = None, m_summary = None,
                       matched_content = snip, match_source = msrc, rerank_score = None\<rparr>\<rparr>
   = [(StrKey n, mk_hit (StrKey n) ''vector'' fname snip msrc sc None None)]"
  by (simp add: add_vector_hit_def mk_hit_def)

lemma invoice_add_keyword_after:
  "add_keyword_hit [''invoice''] 7 [(StrKey n, h)] invoice_record =
     [(StrKey n, h),
      (IntKey 7, mk_hit (IntKey 7) ''keyword'' ''note.txt'' ''quarterly tax invoice''
                   ''keyword_fulltext_snippet'' (2/5) None None)]"
  by (simp add: add_keyword_hit_def invoice_snippet mk_hit_def)
     (simp add: invoice_record_def)

lemma mk_hit_text: "snip \<noteq> [] \<Longrightarrow> candidate_text (mk_hit key src fname snip msrc sc rr orig) = snip"
  by (simp add: candidate_text_def mk_hit_def)

text \<open>
  Inside \<open>search_by_vector\<close> the aggregation is keyed by the integer id throughout, and
  its result has one entry per document.
\<close>

lemma add_child_keys: "distinct (map fst agg) \<Longrightarrow> distinct (map fst (add_child q agg c))"
  by (simp add: add_child_def Let_def distinct_update split: option.splits)

lemma add_parent_keys: "distinct (map fst agg) \<Longrightarrow> distinct (map fst (add_parent q agg p))"
  by (simp add: add_parent_def Let_def distinct_update split: option.splits)

lemma foldl_add_child_keys:
  "distinct (map fst agg) \<Longrightarrow> distinct (map fst (foldl (add_child q) agg cs))"
  by (induction cs arbitrary: agg) (simp_all add: add_child_keys)

lemma foldl_add_parent_keys:
  "distinct (map fst agg) \<Longrightarrow> distinct (map fst (foldl (add_parent q) agg ps))"
  by (induction ps arbitrary: agg) (simp_all add: add_parent_keys)

lemma record_map_get_id: "record_map_get records pid = Some r \<Longrightarrow> rec_id r = pid"
  unfolding record_map_get_def by (induction "rev records" arbitrary: records) (auto dest: find_rec_id)

lemma final_result_ids:
  "map vr_id (final_result records fs ms entry) = [] \<or>
   map vr_id (final_result records fs ms entry) = [fst entry]"
  by (auto simp: final_result_def record_map_get_id split: option.splits)

lemma final_results_distinct:
  "distinct (map fst agg) \<Longrightarrow>
   distinct (map vr_id (concat (map (final_result records fs ms) agg)))
   \<and> set (map vr_id (concat (map (final_result records fs ms) agg))) \<subseteq> set (map fst agg)"
proof (induction agg)
  case Nil
  then show ?case by simp
next
  case (Cons entry agg)
  from final_result_ids [of records fs ms entry] Cons show ?case
    by (elim disjE) auto
qed

lemma distinct_map_sort_take:
  "distinct (map g xs) \<Longrightarrow> distinct (map g (take k (sort_key f xs)))"
proof -
  assume d: "distinct (map g xs)"
  then have "distinct (sort_key f xs) \<and> inj_on g (set (sort_key f xs))"
    by (simp add: distinct_map)
  then have "distinct (map g (sort_key f xs))"
    by (simp add: distinct_map)
  then show ?thesis
    by (simp add: take_map [symmetric])
qed

lemma search_by_vector_one_hit_per_document:
  "distinct (map vr_id (search_by_vector w db q k fs uid ms))"
proof -
  have agg: "distinct (map fst (foldl (add_parent v) (foldl (add_child v) [] cs) ps))" for v cs ps
    by (rule foldl_add_parent_keys) (rule foldl_add_child_keys, simp)
  show ?thesis
    by (auto simp: search_by_vector_def Let_def distinct_map_sort_take final_results_distinct agg
        simp del: map_concat split: sum.splits)
qed

text \<open>
  C2 at a failing input. Document 7 is recalled by the vector path and by the keyword
  path. The vector result is stored under the string key \<open>str(7)\<close> and the keyword
  result is looked up under the integer key \<open>7\<close>, so the test
  \<open>record.id not in combined\<close> succeeds and the returned list holds two hits for the
  one document.
\<close>

theorem duplicate_document_hit:
  "hybrid_search flat_world invoice_db ''invoice'' (Some [''invoice'']) 5 1 None None =
     Inr [mk_hit (StrKey 7) ''vector'' ''note.txt'' ''quarterly tax invoice'' ''child_node''
            (1/2) (Some (1/2)) (Some 1),
          mk_hit (IntKey 7) ''keyword'' ''note.txt'' ''quarterly tax invoice''
            ''keyword_fulltext_snippet'' (1/2) (Some (1/2)) (Some (2/5))]
   \<and> int_of_key (StrKey 7) = int_of_key (IntKey 7)"
proof -
  have rec: "rec_id invoice_record = 7" by (simp add: invoice_record_def)
  have m: "rerank_model flat_world = Model (\<lambda>q cs. Inr (map (\<lambda>c. 0) cs))"
    by (simp add: flat_world_def)
  have fs: "\<And>key src msrc sc. final_score [''invoice''] (mk_hit key src ''note.txt''
       ''quarterly tax invoice'' msrc sc None None) 0 = 1/2"
    by (simp add: final_score_def invoice_has_kw sigmoid_zero)
  show ?thesis
    by (simp add: hybrid_search_def Let_def or_str_def invoice_vector_results
        invoice_keyword_results no_range_passes filter_raising_all max_list_simps rec
        vr_as_hit invoice_add_keyword_after m
        rerank_stage_def rerank_def rerank_loop_def mk_hit_text mk_hit_rerank_item fs)
qed


lemma rerank_only_unavailable: "rerank m q cs k = Inl e \<Longrightarrow> m = Unavailable"
  by (auto simp: rerank_def split: if_splits reranker.splits sum.splits)


lemma rerank_loop_threshold: "list_all (\<lambda>h. 0.40 \<le> score h) (rerank_loop ks items idxs)"
proof (induction idxs)
  case Nil
  then show ?case by (simp add: rerank_loop_def)
next
  case (Cons a idxs)
  obtain idx raw where a: "a = (idx, raw)" by (cases a)
  have step: "rerank_loop ks items (a # idxs) =
      (if idx < length items
       then (case rerank_item ks (items ! idx) raw of None \<Rightarrow> [] | Some item \<Rightarrow> [item])
       else []) @ rerank_loop ks items idxs"
    by (simp add: rerank_loop_def a)
  show ?case
    using Cons rerank_item_score [of ks "items ! idx" raw]
    by (auto simp: step split: option.splits)
qed


lemma stage_threshold:
  "m \<noteq> Unavailable \<Longrightarrow> list_all (\<lambda>h. 0.40 \<le> score h) (rerank_stage m q ks k combined)"
proof (cases "rerank m q (map candidate_text (map snd combined)) k")
  case (Inl e)
  assume "m \<noteq> Unavailable"
  with rerank_only_unavailable [OF Inl] show ?thesis by simp
next
  case (Inr idxs)
  then show ?thesis
    using rerank_loop_threshold [of ks "map snd combined" idxs]
    by (simp add: rerank_stage_def Let_def)
qed

lemma stage_fallback:
  "rerank_stage Unavailable q ks k combined = take k (sort_key (\<lambda>x. - score x) (map snd combined))"
  by (simp add: rerank_stage_def Let_def rerank_def)

lemma stage_fallback_sorted:
  "sorted (map (\<lambda>h. - score h) (rerank_stage Unavailable q ks k combined))"
proof -
  have "sorted (take k (map (\<lambda>h. - score h) (sort_key (\<lambda>x. - score x) (map snd combined))))"
    by (rule sorted_wrt_take) (rule sorted_sort_key)
  then show ?thesis by (simp add: stage_fallback take_map)
qed

lemma rerank_order:
  "rerank m q cs k = Inr idxs \<Longrightarrow> sorted (map (\<lambda>x. - snd x) idxs)"
proof -
  assume r: "rerank m q cs k = Inr idxs"
  have zeros: "sorted (map (\<lambda>x. - snd x) (map (\<lambda>i. (i, 0::real)) xs))" for xs :: "nat list"
    by (induction xs) auto
  have srt: "sorted (map (\<lambda>x. - snd x) (sort_key (\<lambda>x. - snd x) ys))" for ys :: "(nat \<times> real) list"
    by (rule sorted_sort_key)
  have tk: "sorted (map (\<lambda>x. - snd x) zs) \<Longrightarrow> sorted (map (\<lambda>x. - snd x) (take k zs))"
    for zs :: "(nat \<times> real) list"
    by (simp add: take_map [symmetric] sorted_wrt_take)
  show ?thesis
    using r zeros srt tk
    by (auto simp: rerank_def split: if_splits reranker.splits sum.splits)
qed

lemma note_add_keyword_after:
  "3 \<le> mx \<Longrightarrow> mx \<le> 12 \<Longrightarrow>
   add_keyword_hit [''invoice''] mx [(StrKey n, h)] note_record = [(StrKey n, h), (IntKey 7, invoice_hit (2/5) None None)]"
  by (simp add: add_keyword_hit_def note_snippet mk_hit_def invoice_hit_def)
     (simp add: note_record_def)

lemma photo_run:
  assumes "\<And>t. embed_text w t = Inr [1]"
  shows "hybrid_search w photo_db ''invoice'' (Some [''invoice'']) 5 1 None None =
     Inr (rerank_stage (rerank_model w) ''invoice'' [''invoice''] 5
            [(StrKey 8, photo_hit 1 None None), (IntKey 7, invoice_hit (2/5) None None)])"
proof -
  have rec: "rec_id note_record = 7" by (simp add: note_record_def)
  show ?thesis
    by (simp add: hybrid_search_def Let_def or_str_def photo_vector_results [OF assms]
        photo_keyword_results no_range_passes filter_raising_all max_list_simps rec
        vr_as_hit note_add_keyword_after photo_hit_def)
qed

lemma photo_texts:
  "candidate_text (photo_hit a b c) = ''family photo caption''"
  "candidate_text (invoice_hit a b c) = ''quarterly tax invoice''"
  by (simp_all add: photo_hit_def invoice_hit_def mk_hit_text)

lemma photo_final_score:
  "sigmoid raw < 0.85 \<Longrightarrow> final_score [''invoice''] (photo_hit a b c) raw = sigmoid raw / 2"
  by (simp add: final_score_def photo_hit_def photo_has_no_kw)

lemma invoice_final_score:
  "final_score [''invoice''] (invoice_hit a b c) raw = sigmoid raw"
  by (simp add: final_score_def invoice_hit_def invoice_has_kw)

lemma sigmoid_ln5: "sigmoid (ln 5) = 5 / 6"
  by (simp add: sigmoid_ln)

lemma photo_item_steep:
  "rerank_item [''invoice''] (photo_hit 1 None None) (ln 5) = Some (photo_hit (5/12) (Some (5/12)) (Some 1))"
proof -
  have fs: "final_score [''invoice''] (mk_hit (StrKey 8) ''vector'' ''photo.jpg''
      ''family photo caption'' ''child_node'' 1 None None) (ln 5) = 5 / 12"
    using photo_final_score [of "ln 5" 1 None None] by (simp add: sigmoid_ln5 photo_hit_def)
  show ?thesis
    unfolding photo_hit_def by (simp add: mk_hit_rerank_item fs)
qed

lemma invoice_item_zero:
  "rerank_item [''invoice''] (invoice_hit (2/5) None None) 0 = Some (invoice_hit (1/2) (Some (1/2)) (Some (2/5)))"
proof -
  have fs: "final_score [''invoice''] (mk_hit (IntKey 7) ''keyword'' ''note.txt''
      ''quarterly tax invoice'' ''keyword_fulltext_snippet'' (2/5) None None) 0 = 1 / 2"
    using invoice_final_score [of "2/5" None None 0] by (simp add: sigmoid_zero invoice_hit_def)
  show ?thesis
    unfolding invoice_hit_def by (simp add: mk_hit_rerank_item fs)
qed

lemma steep_run:
  "hybrid_search steep_world photo_db ''invoice'' (Some [''invoice'']) 5 1 None None =
     Inr [photo_hit (5/12) (Some (5/12)) (Some 1), invoice_hit (1/2) (Some (1/2)) (Some (2/5))]"
proof -
  have e: "\<And>t. embed_text steep_world t = Inr [1]" by (simp add: steep_world_def)
  have m: "rerank_model steep_world =
      Model (\<lambda>q cs. Inr (map (\<lambda>i. if i = 0 then ln 5 else 0) [0..<length cs]))"
    by (simp add: steep_world_def)
  have two: "[0..<2] = [0, Suc 0]" by (simp add: upt_conv_Cons)
  show ?thesis
    by (subst photo_run [OF e])
       (simp add: m rerank_stage_def rerank_def rerank_loop_def photo_texts two
        photo_item_steep invoice_item_zero)
qed

lemma bare_run:
  "hybrid_search bare_world photo_db ''invoice'' (Some [''invoice'']) 5 1 None None =
     Inr [photo_hit 1 None None, invoice_hit (2/5) None None]"
proof -
  have e: "\<And>t. embed_text bare_world t = Inr [1]" by (simp add: bare_world_def)
  have m: "rerank_model bare_world = Unavailable" by (simp add: bare_world_def)
  have s: "score (photo_hit 1 None None) = 1" "score (invoice_hit (2/5) None None) = 2/5"
    by (simp_all add: photo_hit_def invoice_hit_def mk_hit_def)
  show ?thesis
    by (subst photo_run [OF e]) (simp add: m stage_fallback s)
qed

text \<open>
  The order after the keyword penalty. The photo caption gets the higher logit and
  comes first; the penalty then halves its score to 5/12, below the 1/2 of the invoice
  that follows it. The loop appends in the order of the reranker's list and nothing
  sorts the list afterwards, although the log line that follows the loop reports the
  first hit's score as the top score.
\<close>

lemma order_after_penalty:
  "hybrid_search steep_world photo_db ''invoice'' (Some [''invoice'']) 5 1 None None =
     Inr [photo_hit (5/12) (Some (5/12)) (Some 1), invoice_hit (1/2) (Some (1/2)) (Some (2/5))]
   \<and> score (photo_hit (5/12) (Some (5/12)) (Some 1))
       < score (invoice_hit (1/2) (Some (1/2)) (Some (2/5)))"
proof
  show "hybrid_search steep_world photo_db ''invoice'' (Some [''invoice'']) 5 1 None None =
     Inr [photo_hit (5/12) (Some (5/12)) (Some 1), invoice_hit (1/2) (Some (1/2)) (Some (2/5))]"
    by (rule steep_run)
  show "score (photo_hit (5/12) (Some (5/12)) (Some 1))
       < score (invoice_hit (1/2) (Some (1/2)) (Some (2/5)))"
    by (simp add: photo_hit_def invoice_hit_def mk_hit_def)
qed




































section \<open>Properties of the time filter\<close>

lemma year_token_unparsed: "parse_date ''2024'' = None"
  by (simp add: parse_date_def fromisoformat_def)

lemma year_token_bounds: "range_bounds now (strip ''2024'') = Inr (None, None)"
  by (simp add: range_bounds_def match_last_def strip_def isspace_def year_token_unparsed)

lemma november_15: "parse_date ''2023-11-15'' = Some \<lparr>ordinal = 738839, day_us = 0\<rparr>"
  by (simp add: parse_date_def fromisoformat_def is_digit_def int_of_digits_def days_in_month_def
      ymd2ord_def days_before_year_def days_before_month_def is_leap_def)

lemma november: "parse_date ''2023-11'' = Some \<lparr>ordinal = 738825, day_us = 0\<rparr>"
  by (simp add: parse_date_def fromisoformat_def is_digit_def int_of_digits_def days_in_month_def
      ymd2ord_def days_before_year_def days_before_month_def is_leap_def)

lemma november_bounds:
  "range_bounds now (strip ''2023-11'') = Inr (Some \<lparr>ordinal = 738825, day_us = 0\<rparr>, None)"
  by (simp add: range_bounds_def match_last_def strip_def isspace_def november)

lemma semantic_date_decides:
  "raw \<noteq> [] \<Longrightarrow> range_bounds now (strip raw) = Inr (start, end) \<Longrightarrow> parse_date c = Some dt \<Longrightarrow>
   match_time_range now (Some c) (Some raw) fb = Inr (in_range start end dt)"
  by (simp add: match_time_range_def)

lemma undated_passes:
  "range_bounds now (strip raw) = Inr b \<Longrightarrow> match_time_range now None (Some raw) None = Inr True"
  by (cases b) (simp add: match_time_range_def)

text \<open>
  C4 at a failing input. \<open>_parse_date\<close> reads \<open>YYYY-MM-DD\<close> and, by appending \<open>-01\<close>,
  \<open>YYYY-MM\<close>; for the year token \<open>2024\<close> both attempts fail, the range has no bounds
  and every candidate passes, the document dated 2023-11-15 among them. The month
  token \<open>2023-11\<close> does include that document.
\<close>

theorem year_token_filters_nothing:
  "parse_date ''2024'' = None
   \<and> match_time_range now candidate (Some ''2024'') fallback_dt = Inr True
   \<and> match_time_range now (Some ''2023-11-15'') (Some ''2024'') fallback_dt = Inr True
   \<and> match_time_range now (Some ''2023-11-15'') (Some ''2023-11'') fallback_dt = Inr True
   \<and> pass_time w records (Some ''2024'') doc_id = Inr True"
proof -
  have all: "match_time_range t c (Some ''2024'') fb = Inr True" for t c fb
    by (simp add: match_time_range_def year_token_bounds in_range_def split: option.splits)
  have nov: "match_time_range now (Some ''2023-11-15'') (Some ''2023-11'') fallback_dt = Inr True"
    by (simp add: match_time_range_def november_bounds november_15 in_range_def dt_le_def)
  have pt: "pass_time w records (Some ''2024'') doc_id = Inr True"
    by (simp add: pass_time_def all split: option.splits)
  show ?thesis using year_token_unparsed all nov pt by blast
qed

section \<open>Properties of the ArchiverStage\<close>

lemma handle_failure_no_event: "published (handle_failure env fp place st ym r e) = []"
  by (simp add: handle_failure_def Let_def split: option.splits)

lemma handle_failure_status:
  "commit_failed env = None \<Longrightarrow>
   raised (handle_failure env fp place st ym r e) = Some e
   \<and> stored (handle_failure env fp place st ym r e)
       = r\<lparr>processing_status := FAILED, processing_error := Some (message e)\<rparr>"
  by (simp add: handle_failure_def Let_def)

lemma handle_failure_unresolved:
  "file_at (handle_failure env fp fp None ym r e) = fp"
  by (simp add: handle_failure_def Let_def split: option.splits)

lemma handle_failure_unnamed:
  "file_at (handle_failure env fp fp (Some (mount, username)) None r e)
     = (if username \<noteq> [] \<and> move_to_failed env = None
        then failed_path mount username (year_month_now env) (file_type_dir env) fp
        else fp)"
  by (simp add: handle_failure_def Let_def split: option.splits)

lemma handle_failure_named:
  "file_at (handle_failure env fp fp (Some (mount, username)) (Some ym) r e)
     = (if username \<noteq> [] \<and> move_to_failed env = None
        then failed_path mount username (if ym = [] then year_month_now env else ym)
               (file_type_dir env) fp
        else fp)"
  by (simp add: handle_failure_def Let_def split: option.splits)

lemma handle_failure_kept_file:
  "place \<noteq> fp \<Longrightarrow> file_at (handle_failure env fp place st ym r e) = place"
  by (simp add: handle_failure_def Let_def split: option.splits)

lemma storage_step_raises:
  assumes "resolve_storage env = Inl e"
  shows "process_and_persist env fp r = handle_failure env fp fp None None r e"
  using assms by (simp add: process_and_persist_def)

lemma naming_step_raises:
  assumes "resolve_storage env = Inr (mount, username)" "naming env = Some e"
  shows "process_and_persist env fp r
    = handle_failure env fp fp (Some (mount, username)) None r e"
  using assms by (simp add: process_and_persist_def)

lemma step_before_move_raises:
  assumes "resolve_storage env = Inr (mount, username)" "naming env = None"
    and "pick_category env = Some e
         \<or> pick_category env = None
           \<and> (generate_target_path env = Inl e
              \<or> (\<exists>final_path. generate_target_path env = Inr final_path)
                \<and> move_to_target env = Some e)"
  shows "process_and_persist env fp r
    = handle_failure env fp fp (Some (mount, username)) (Some (year_month env)) r e"
  using assms by (auto simp: process_and_persist_def)

lemma step_after_move_raises:
  assumes "resolve_storage env = Inr (mount, username)" "naming env = None"
    "pick_category env = None" "generate_target_path env = Inr final_path"
    "move_to_target env = None"
    and "stat_target env = Some e \<or> stat_target env = None \<and> commit_completed env = Some e"
  shows "process_and_persist env fp r
    = handle_failure env fp final_path (Some (mount, username)) (Some (year_month env)) r e"
  using assms by (auto simp: process_and_persist_def)

lemma no_step_raises:
  assumes "resolve_storage env = Inr (mount, username)" "naming env = None"
    "pick_category env = None" "generate_target_path env = Inr final_path"
    "move_to_target env = None" "stat_target env = None" "commit_completed env = None"
  shows "process_and_persist env fp r
    = \<lparr>raised = None, file_at = final_path,
       stored = (analysed env r)\<lparr>processing_status := COMPLETED, processing_error := None\<rparr>,
       published = [archive_completed_event
          ((analysed env r)\<lparr>processing_status := COMPLETED, processing_error := None\<rparr>) fp]\<rparr>"
  using assms by (simp add: process_and_persist_def Let_def)

lemma published_only_on_success:
  assumes "published (process_and_persist env fp r) \<noteq> []"
  shows "\<exists>mount username final_path.
      resolve_storage env = Inr (mount, username) \<and> naming env = None
      \<and> pick_category env = None \<and> generate_target_path env = Inr final_path
      \<and> move_to_target env = None \<and> stat_target env = None \<and> commit_completed env = None"
  using assms
  by (auto simp: process_and_persist_def handle_failure_no_event Let_def
      split: sum.splits option.splits prod.splits)

text \<open>
  C9 (as the code has it), step by step. Whichever step raises, the completion event is
  not published, and when the commit of the failure handler works the run re-raises
  the exception and the record has the status \<open>FAILED\<close> and the exception's message.
  Where the file ends up depends on the step that raised:

  \<^item> resolving the user or the storage root raises: the file stays at the upload path;
  \<^item> a naming step raises before \<open>year_month\<close> is assigned: the file goes to the
    \<open>_FAILED\<close> directory under the current month (it stays at the upload path if the
    move into \<open>_FAILED\<close> raises);
  \<^item> choosing the category, creating the target or moving the file raises: the file
    goes to the \<open>_FAILED\<close> directory under the document's month (same exception);
  \<^item> reading the size or the commit raises, after the move: the file stays at its
    target;
  \<^item> no step raises: the record is stored as \<open>COMPLETED\<close> and the completion event is
    published, and a run that publishes the event is one in which no step raised.
\<close>

theorem archiver_failure_handling:
  "(resolve_storage env = Inl e \<longrightarrow>
      published (process_and_persist env fp r) = []
      \<and> file_at (process_and_persist env fp r) = fp
      \<and> (commit_failed env = None \<longrightarrow>
           raised (process_and_persist env fp r) = Some e
           \<and> stored (process_and_persist env fp r)
               = r\<lparr>processing_status := FAILED, processing_error := Some (message e)\<rparr>))
   \<and> (resolve_storage env = Inr (mount, username) \<and> naming env = Some e \<longrightarrow>
      published (process_and_persist env fp r) = []
      \<and> file_at (process_and_persist env fp r)
          = (if username \<noteq> [] \<and> move_to_failed env = None
             then failed_path mount username (year_month_now env) (file_type_dir env) fp
             else fp)
      \<and> (commit_failed env = None \<longrightarrow>
           raised (process_and_persist env fp r) = Some e
           \<and> stored (process_and_persist env fp r)
               = r\<lparr>processing_status := FAILED, processing_error := Some (message e)\<rparr>))
   \<and> (resolve_storage env = Inr (mount, username) \<and> naming env = None
        \<and> (pick_category env = Some e
           \<or> pick_category env = None
             \<and> (generate_target_path env = Inl e
                \<or> (\<exists>final_path. generate_target_path env = Inr final_path)
                  \<and> move_to_target env = Some e)) \<longrightarrow>
      published (process_and_persist env fp r) = []
      \<and> file_at (process_and_persist env fp r)
          = (if username \<noteq> [] \<and> move_to_failed env = None
             then failed_path mount username
                    (if year_month env = [] then year_month_now env else year_month env)
                    (file_type_dir env) fp
             else fp)
      \<and> (commit_failed env = None \<longrightarrow>
           raised (process_and_persist env fp r) = Some e
           \<and> stored (process_and_persist env fp r)
               = r\<lparr>processing_status := FAILED, processing_error := Some (message e)\<rparr>))
   \<and> (resolve_storage env = Inr (mount, username) \<and> naming env = None
        \<and> pick_category env = None \<and> generate_target_path env = Inr final_path
        \<and> move_to_target env = None \<and> final_path \<noteq> fp
        \<and> (stat_target env = Some e
           \<or> stat_target env = None \<and> commit_completed env = Some e) \<longrightarrow>
      published (process_and_persist env fp r) = []
      \<and> file_at (process_and_persist env fp r) = final_path
      \<and> (commit_failed env = None \<longrightarrow>
           raised (process_and_persist env fp r) = Some e
           \<and> stored (process_and_persist env fp r)
               = r\<lparr>processing_status := FAILED, processing_error := Some (message e)\<rparr>))
   \<and> (resolve_storage env = Inr (mount, username) \<and> naming env = None
        \<and> pick_category env = None \<and> generate_target_path env = Inr final_path
        \<and> move_to_target env = None \<and> stat_target env = None
        \<and> commit_completed env = None \<longrightarrow>
      raised (process_and_persist env fp r) = None
      \<and> file_at (process_and_persist env fp r) = final_path
      \<and> processing_status (stored (process_and_persist env fp r)) = COMPLETED
      \<and> processing_error (stored (process_and_persist env fp r)) = None
      \<and> published (process_and_persist env fp r)
          = [archive_completed_event (stored (process_and_persist env fp r)) fp])
   \<and> (published (process_and_persist env fp r) \<noteq> [] \<longrightarrow>
      raised (process_and_persist env fp r) = None
      \<and> (\<exists>mount username final_path.
           resolve_storage env = Inr (mount, username) \<and> naming env = None
           \<and> pick_category env = None \<and> generate_target_path env = Inr final_path
           \<and> move_to_target env = None \<and> stat_target env = None
           \<and> commit_completed env = None))"
proof (intro conjI)
  show "resolve_storage env = Inl e \<longrightarrow>
      published (process_and_persist env fp r) = []
      \<and> file_at (process_and_persist env fp r) = fp
      \<and> (commit_failed env = None \<longrightarrow>
           raised (process_and_persist env fp r) = Some e
           \<and> stored (process_and_persist env fp r)
               = r\<lparr>processing_status := FAILED, processing_error := Some (message e)\<rparr>)"
    by (simp add: storage_step_raises handle_failure_no_event handle_failure_unresolved
        handle_failure_status)
next
  show "resolve_storage env = Inr (mount, username) \<and> naming env = Some e \<longrightarrow>
      published (process_and_persist env fp r) = []
      \<and> file_at (process_and_persist env fp r)
          = (if username \<noteq> [] \<and> move_to_failed env = None
             then failed_path mount username (year_month_now env) (file_type_dir env) fp
             else fp)
      \<and> (commit_failed env = None \<longrightarrow>
           raised (process_and_persist env fp r) = Some e
           \<and> stored (process_and_persist env fp r)
               = r\<lparr>processing_status := FAILED, processing_error := Some (message e)\<rparr>)"
    by (simp add: naming_step_raises handle_failure_no_event handle_failure_unnamed
        handle_failure_status)
next
  show "resolve_storage env = Inr (mount, username) \<and> naming env = None
        \<and> (pick_category env = Some e
           \<or> pick_category env = None
             \<and> (generate_target_path env = Inl e
                \<or> (\<exists>final_path. generate_target_path env = Inr final_path)
                  \<and> move_to_target env = Some e)) \<longrightarrow>
      published (process_and_persist env fp r) = []
      \<and> file_at (process_and_persist env fp r)
          = (if username \<noteq> [] \<and> move_to_failed env = None
             then failed_path mount username
                    (if year_month env = [] then year_month_now env else year_month env)
                    (file_type_dir env) fp
             else fp)
      \<and> (commit_failed env = None \<longrightarrow>
           raised (process_and_persist env fp r) = Some e
           \<and> stored (process_and_persist env fp r)
               = r\<lparr>processing_status := FAILED, processing_error := Some (message e)\<rparr>)"
  proof
    assume a: "resolve_storage env = Inr (mount, username) \<and> naming env = None
        \<and> (pick_category env = Some e
           \<or> pick_category env = None
             \<and> (generate_target_path env = Inl e
                \<or> (\<exists>final_path. generate_target_path env = Inr final_path)
                  \<and> move_to_target env = Some e))"
    then have "process_and_persist env fp r
      = handle_failure env fp fp (Some (mount, username)) (Some (year_month env)) r e"
      by (intro step_before_move_raises) simp_all
    then show "published (process_and_persist env fp r) = []
      \<and> file_at (process_and_persist env fp r)
          = (if username \<noteq> [] \<and> move_to_failed env = None
             then failed_path mount username
                    (if year_month env = [] then year_month_now env else year_month env)
                    (file_type_dir env) fp
             else fp)
      \<and> (commit_failed env = None \<longrightarrow>
           raised (process_and_persist env fp r) = Some e
           \<and> stored (process_and_persist env fp r)
               = r\<lparr>processing_status := FAILED, processing_error := Some (message e)\<rparr>)"
      by (simp add: handle_failure_no_event handle_failure_named handle_failure_status)
  qed
next
  show "resolve_storage env = Inr (mount, username) \<and> naming env = None
        \<and> pick_category env = None \<and> generate_target_path env = Inr final_path
        \<and> move_to_target env = None \<and> final_path \<noteq> fp
        \<and> (stat_target env = Some e
           \<or> stat_target env = None \<and> commit_completed env = Some e) \<longrightarrow>
      published (process_and_persist env fp r) = []
      \<and> file_at (process_and_persist env fp r) = final_path
      \<and> (commit_failed env = None \<longrightarrow>
           raised (process_and_persist env fp r) = Some e
           \<and> stored (process_and_persist env fp r)
               = r\<lparr>processing_status := FAILED, processing_error := Some (message e)\<rparr>)"
  proof
    assume a: "resolve_storage env = Inr (mount, username) \<and> naming env = None
        \<and> pick_category env = None \<and> generate_target_path env = Inr final_path
        \<and> move_to_target env = None \<and> final_path \<noteq> fp
        \<and> (stat_target env = Some e
           \<or> stat_target env = None \<and> commit_completed env = Some e)"
    then have "process_and_persist env fp r
      = handle_failure env fp final_path (Some (mount, username)) (Some (year_month env)) r e"
      by (intro step_after_move_raises) simp_all
    with a show "published (process_and_persist env fp r) = []
      \<and> file_at (process_and_persist env fp r) = final_path
      \<and> (commit_failed env = None \<longrightarrow>
           raised (process_and_persist env fp r) = Some e
           \<and> stored (process_and_persist env fp r)
               = r\<lparr>processing_status := FAILED, processing_error := Some (message e)\<rparr>)"
      by (simp add: handle_failure_no_event handle_failure_kept_file handle_failure_status)
  qed
next
  show "resolve_storage env = Inr (mount, username) \<and> naming env = None
        \<and> pick_category env = None \<and> generate_target_path env = Inr final_path
        \<and> move_to_target env = None \<and> stat_target env = None
        \<and> commit_completed env = None \<longrightarrow>
      raised (process_and_persist env fp r) = None
      \<and> file_at (process_and_persist env fp r) = final_path
      \<and> processing_status (stored (process_and_persist env fp r)) = COMPLETED
      \<and> processing_error (stored (process_and_persist env fp r)) = None
      \<and> published (process_and_persist env fp r)
          = [archive_completed_event (stored (process_and_persist env fp r)) fp]"
    by (simp add: no_step_raises)
next
  show "published (process_and_persist env fp r) \<noteq> [] \<longrightarrow>
      raised (process_and_persist env fp r) = None
      \<and> (\<exists>mount username final_path.
           resolve_storage env = Inr (mount, username) \<and> naming env = None
           \<and> pick_category env = None \<and> generate_target_path env = Inr final_path
           \<and> move_to_target env = None \<and> stat_target env = None
           \<and> commit_completed env = None)"
  proof
    assume p: "published (process_and_persist env fp r) \<noteq> []"
    from published_only_on_success [OF p] obtain mount' username' final_path' where
      s: "resolve_storage env = Inr (mount', username')" "naming env = None"
        "pick_category env = None" "generate_target_path env = Inr final_path'"
        "move_to_target env = None" "stat_target env = None" "commit_completed env = None"
      by blast
    have "raised (process_and_persist env fp r) = None"
      by (simp add: no_step_raises [OF s])
    with s show "raised (process_and_persist env fp r) = None
      \<and> (\<exists>mount username final_path.
           resolve_storage env = Inr (mount, username) \<and> naming env = None
           \<and> pick_category env = None \<and> generate_target_path env = Inr final_path
           \<and> move_to_target env = None \<and> stat_target env = None
           \<and> commit_completed env = None)"
      by blast
  qed
qed

lemma commit_fails_run:
  "process_and_persist commit_fails upload_path r =
     \<lparr>raised = Some (Exception ''database is locked''),
      file_at = [''data'', ''archives'', ''alice'', ''2023.11'', ''Documents'', ''2023-11-15-invoice.txt''],
      stored = r\<lparr>processing_status := FAILED, processing_error := Some ''database is locked''\<rparr>,
      published = []\<rparr>"
  by (simp add: process_and_persist_def commit_fails_def handle_failure_def upload_path_def)

lemma move_fails_run:
  "process_and_persist move_fails upload_path r =
     \<lparr>raised = Some (Exception ''disk full''),
      file_at = [''data'', ''archives'', ''alice'', ''2023.11'', ''Documents'', ''_FAILED'', ''invoice.txt''],
      stored = r\<lparr>processing_status := FAILED, processing_error := Some ''disk full''\<rparr>,
      published = []\<rparr>"
  by (simp add: process_and_persist_def move_fails_def commit_fails_def handle_failure_def
      upload_path_def failed_path_def path_name_def)

lemma naming_fails_run:
  "process_and_persist naming_fails upload_path r =
     \<lparr>raised = Some (Exception ''NoneType object has no attribute get''),
      file_at = [''data'', ''archives'', ''alice'', ''2026.11'', ''Documents'', ''_FAILED'', ''invoice.txt''],
      stored = r\<lparr>processing_status := FAILED,
                 processing_error := Some ''NoneType object has no attribute get''\<rparr>,
      published = []\<rparr>"
  by (simp add: process_and_persist_def naming_fails_def all_works_def commit_fails_def
      handle_failure_def upload_path_def failed_path_def path_name_def)

lemma all_works_run:
  "process_and_persist all_works upload_path r =
     \<lparr>raised = None,
      file_at = [''data'', ''archives'', ''alice'', ''2023.11'', ''Documents'', ''2023-11-15-invoice.txt''],
      stored = r\<lparr>processing_status := COMPLETED, processing_error := None\<rparr>,
      published = [archive_completed_event
                     (r\<lparr>processing_status := COMPLETED, processing_error := None\<rparr>) upload_path]\<rparr>"
  by (simp add: process_and_persist_def all_works_def commit_fails_def Let_def)

text \<open>
  C9 as stated sends the file to \<open>_FAILED\<close> for every failing step up to persistence.
  When the commit raises, the file has already left the upload path, the test
  \<open>file_path.exists()\<close> fails and the file stays at its target.
\<close>

theorem archiver_failure_counterexample:
  "commit_completed commit_fails = Some (Exception ''database is locked'')
   \<and> raised (process_and_persist commit_fails upload_path note_record)
       = Some (Exception ''database is locked'')
   \<and> file_at (process_and_persist commit_fails upload_path note_record)
       = [''data'', ''archives'', ''alice'', ''2023.11'', ''Documents'', ''2023-11-15-invoice.txt'']
   \<and> ''_FAILED'' \<notin> set (file_at (process_and_persist commit_fails upload_path note_record))"
  by (simp add: commit_fails_run) (simp add: commit_fails_def)

text \<open>One run for each kind of failing step, and the run in which every step works.\<close>

theorem archiver_failure_handling_witness:
  "resolve_storage storage_fails = Inl (Exception ''no such table: storage_roots'')
   \<and> published (process_and_persist storage_fails upload_path note_record) = []
   \<and> file_at (process_and_persist storage_fails upload_path note_record) = upload_path
   \<and> stored (process_and_persist storage_fails upload_path note_record)
       = note_record\<lparr>processing_status := FAILED,
                      processing_error := Some ''no such table: storage_roots''\<rparr>
   \<and> naming naming_fails = Some (Exception ''NoneType object has no attribute get'')
   \<and> published (process_and_persist naming_fails upload_path note_record) = []
   \<and> file_at (process_and_persist naming_fails upload_path note_record)
       = [''data'', ''archives'', ''alice'', ''2026.11'', ''Documents'', ''_FAILED'', ''invoice.txt'']
   \<and> raised (process_and_persist naming_fails upload_path note_record)
       = Some (Exception ''NoneType object has no attribute get'')
   \<and> pick_category category_fails = Some (Exception ''NoneType object has no attribute get'')
   \<and> published (process_and_persist category_fails upload_path note_record) = []
   \<and> file_at (process_and_persist category_fails upload_path note_record)
       = [''data'', ''archives'', ''alice'', ''2023.11'', ''Documents'', ''_FAILED'', ''invoice.txt'']
   \<and> move_to_target move_fails = Some (Exception ''disk full'')
   \<and> published (process_and_persist move_fails upload_path note_record) = []
   \<and> file_at (process_and_persist move_fails upload_path note_record)
       = [''data'', ''archives'', ''alice'', ''2023.11'', ''Documents'', ''_FAILED'', ''invoice.txt'']
   \<and> stored (process_and_persist move_fails upload_path note_record)
       = note_record\<lparr>processing_status := FAILED, processing_error := Some ''disk full''\<rparr>
   \<and> stat_target stat_fails = Some (Exception ''permission denied'')
   \<and> published (process_and_persist stat_fails upload_path note_record) = []
   \<and> file_at (process_and_persist stat_fails upload_path note_record)
       = [''data'', ''archives'', ''alice'', ''2023.11'', ''Documents'', ''2023-11-15-invoice.txt'']
   \<and> processing_status (stored (process_and_persist stat_fails upload_path note_record)) = FAILED
   \<and> raised (process_and_persist all_works upload_path note_record) = None
   \<and> processing_status (stored (process_and_persist all_works upload_path note_record)) = COMPLETED
   \<and> published (process_and_persist all_works upload_path note_record)
       = [archive_completed_event
            (stored (process_and_persist all_works upload_path note_record)) upload_path]"
proof -
  let ?final = "[''data'', ''archives'', ''alice'', ''2023.11'', ''Documents'', ''2023-11-15-invoice.txt'']"
  let ?gone = "[''data'', ''archives'', ''alice'', ''2023.11'', ''Documents'', ''_FAILED'', ''invoice.txt'']"
  note s = archiver_failure_handling [where env = storage_fails and fp = upload_path
      and r = note_record and e = "Exception ''no such table: storage_roots''"]
  note n = archiver_failure_handling [where env = naming_fails and fp = upload_path
      and r = note_record and e = "Exception ''NoneType object has no attribute get''"
      and mount = "[''data'', ''archives'']" and username = "''alice''"]
  note c = archiver_failure_handling [where env = category_fails and fp = upload_path
      and r = note_record and e = "Exception ''NoneType object has no attribute get''"
      and mount = "[''data'', ''archives'']" and username = "''alice''"]
  note m = archiver_failure_handling [where env = move_fails and fp = upload_path
      and r = note_record and e = "Exception ''disk full''"
      and mount = "[''data'', ''archives'']" and username = "''alice''"]
  note t = archiver_failure_handling [where env = stat_fails and fp = upload_path
      and r = note_record and e = "Exception ''permission denied''"
      and mount = "[''data'', ''archives'']" and username = "''alice''" and final_path = ?final]
  note a = archiver_failure_handling [where env = all_works and fp = upload_path
      and r = note_record and mount = "[''data'', ''archives'']" and username = "''alice''"
      and final_path = ?final]
  have s0: "resolve_storage storage_fails = Inl (Exception ''no such table: storage_roots'')"
    "commit_failed storage_fails = None"
    by (simp_all add: storage_fails_def all_works_def commit_fails_def)
  have n0: "resolve_storage naming_fails = Inr ([''data'', ''archives''], ''alice'')"
    "naming naming_fails = Some (Exception ''NoneType object has no attribute get'')"
    "commit_failed naming_fails = None" "move_to_failed naming_fails = None"
    "failed_path [''data'', ''archives''] ''alice'' (year_month_now naming_fails)
       (file_type_dir naming_fails) upload_path
     = [''data'', ''archives'', ''alice'', ''2026.11'', ''Documents'', ''_FAILED'', ''invoice.txt'']"
    by (simp_all add: naming_fails_def all_works_def commit_fails_def failed_path_def
        path_name_def upload_path_def)
  have c0: "resolve_storage category_fails = Inr ([''data'', ''archives''], ''alice'')"
    "naming category_fails = None"
    "pick_category category_fails = Some (Exception ''NoneType object has no attribute get'')"
    "move_to_failed category_fails = None" "year_month category_fails = ''2023.11''"
    "failed_path [''data'', ''archives''] ''alice'' ''2023.11''
       (file_type_dir category_fails) upload_path = ?gone"
    by (simp_all add: category_fails_def all_works_def commit_fails_def failed_path_def
        path_name_def upload_path_def)
  have m0: "resolve_storage move_fails = Inr ([''data'', ''archives''], ''alice'')"
    "naming move_fails = None" "pick_category move_fails = None"
    "generate_target_path move_fails = Inr ?final"
    "move_to_target move_fails = Some (Exception ''disk full'')"
    "commit_failed move_fails = None"
    "move_to_failed move_fails = None" "year_month move_fails = ''2023.11''"
    "failed_path [''data'', ''archives''] ''alice'' ''2023.11''
       (file_type_dir move_fails) upload_path = ?gone"
    by (simp_all add: move_fails_def commit_fails_def failed_path_def
        path_name_def upload_path_def)
  have t0: "resolve_storage stat_fails = Inr ([''data'', ''archives''], ''alice'')"
    "naming stat_fails = None" "pick_category stat_fails = None"
    "generate_target_path stat_fails = Inr ?final"
    "move_to_target stat_fails = None" "?final \<noteq> upload_path"
    "stat_target stat_fails = Some (Exception ''permission denied'')"
    "commit_failed stat_fails = None"
    by (simp_all add: stat_fails_def all_works_def commit_fails_def upload_path_def)
  have a0: "resolve_storage all_works = Inr ([''data'', ''archives''], ''alice'')"
    "naming all_works = None" "pick_category all_works = None"
    "generate_target_path all_works = Inr ?final"
    "move_to_target all_works = None" "stat_target all_works = None"
    "commit_completed all_works = None"
    by (simp_all add: all_works_def commit_fails_def)
  from s s0 have s1: "published (process_and_persist storage_fails upload_path note_record) = []
      \<and> file_at (process_and_persist storage_fails upload_path note_record) = upload_path
      \<and> stored (process_and_persist storage_fails upload_path note_record)
          = note_record\<lparr>processing_status := FAILED,
                         processing_error := Some ''no such table: storage_roots''\<rparr>"
    by simp
  from n n0 have n1: "published (process_and_persist naming_fails upload_path note_record) = []
      \<and> file_at (process_and_persist naming_fails upload_path note_record)
          = [''data'', ''archives'', ''alice'', ''2026.11'', ''Documents'', ''_FAILED'', ''invoice.txt'']
      \<and> raised (process_and_persist naming_fails upload_path note_record)
          = Some (Exception ''NoneType object has no attribute get'')"
    by simp
  from c c0 have c1: "published (process_and_persist category_fails upload_path note_record) = []
      \<and> file_at (process_and_persist category_fails upload_path note_record) = ?gone"
    by simp
  from m m0 have m1: "published (process_and_persist move_fails upload_path note_record) = []
      \<and> file_at (process_and_persist move_fails upload_path note_record) = ?gone
      \<and> stored (process_and_persist move_fails upload_path note_record)
          = note_record\<lparr>processing_status := FAILED, processing_error := Some ''disk full''\<rparr>"
    by simp
  from t t0 have t1: "published (process_and_persist stat_fails upload_path note_record) = []
      \<and> file_at (process_and_persist stat_fails upload_path note_record) = ?final
      \<and> stored (process_and_persist stat_fails upload_path note_record)
          = note_record\<lparr>processing_status := FAILED,
                         processing_error := Some ''permission denied''\<rparr>"
    by simp
  from a a0 have a1: "raised (process_and_persist all_works upload_path note_record) = None
      \<and> processing_status (stored (process_and_persist all_works upload_path note_record)) = COMPLETED
      \<and> published (process_and_persist all_works upload_path note_record)
          = [archive_completed_event
               (stored (process_and_persist all_works upload_path note_record)) upload_path]"
    by simp
  from t1 have t2: "processing_status (stored (process_and_persist stat_fails upload_path note_record)) = FAILED"
    by simp
  from s0 s1 n0 n1 c0 c1 m0 m1 t0 t1 t2 a1 show ?thesis by simp
qed

end
